theory Spec2Isabelle
  imports Main
begin

section \<open>Python values and exceptions\<close>

text \<open>
  The values that travel between the layers: \<open>None\<close>, booleans, integers, strings, lists,
  tuples, dictionaries with string keys (an association list, the first binding of a key
  being the one a lookup finds) and the response object that \<open>flask.jsonify\<close> builds.
\<close>

datatype pyval =
    PNone
  | PBool bool
  | PInt int
  | PStr string
  | PList "pyval list"
  | PTuple "pyval list"
  | PDict "(string \<times> pyval) list"
  | PJson pyval

type_synonym pydict = "(string \<times> pyval) list"

text \<open>Python's truth value of an object, as \<open>if x:\<close> and \<open>not x\<close> test it.\<close>

fun truthy :: "pyval \<Rightarrow> bool" where
  "truthy PNone = False"
| "truthy (PBool b) = b"
| "truthy (PInt i) = (i \<noteq> 0)"
| "truthy (PStr s) = (s \<noteq> [])"
| "truthy (PList xs) = (xs \<noteq> [])"
| "truthy (PTuple xs) = (xs \<noteq> [])"
| "truthy (PDict kvs) = (kvs \<noteq> [])"
| "truthy (PJson v) = True"

text \<open>
  Exceptions are instances of subclasses of \<open>Exception\<close>: a class and the argument the
  instance was built with. The classes of \<open>utils.custom_exceptions\<close> are flat named
  exceptions deriving from \<open>Exception\<close>; \<open>UnboundLocalError\<close> is the subclass of
  \<open>NameError\<close> that reading an unassigned local variable raises; \<open>OtherError\<close> stands for
  any class unrelated to the named ones (the database driver's errors, for instance).
\<close>

datatype exn_class =
    KeyError
  | IndexError
  | TypeError
  | NameError
  | UnboundLocalError
  | InvalidRequest
  | DatabaseCloseFail
  | ServerError
  | AccountNotExist
  | ProductCreateDenied
  | ProductImageCreateDenied
  | StockCreateDenied
  | ProductHistoryCreateDenied
  | ProductCodeUpdatedDenied
  | OtherError string

datatype exn = Exn exn_class string

fun issubclass :: "exn_class \<Rightarrow> exn_class \<Rightarrow> bool" where
  "issubclass UnboundLocalError NameError = True"
| "issubclass c d = (c = d)"

fun isinstance :: "exn \<Rightarrow> exn_class \<Rightarrow> bool" where
  "isinstance (Exn c m) d = issubclass c d"

text \<open>\<open>data[key]\<close> on a dictionary: the value, or \<open>KeyError(key)\<close>.\<close>

definition getitem :: "pydict \<Rightarrow> string \<Rightarrow> exn + pyval" where
  "getitem data k = (case map_of data k of None \<Rightarrow> Inl (Exn KeyError k) | Some v \<Rightarrow> Inr v)"

section \<open>The database connection\<close>

text \<open>
  The statements the data-access methods send, named after the table and the verb of
  their SQL text.
\<close>

datatype statement =
    INSERT_products
  | UPDATE_products_product_code
  | INSERT_product_images
  | INSERT_stocks
  | INSERT_product_histories
  | SELECT_customer_information
  | SELECT_accounts_permission

text \<open>
  What a cursor holds after \<open>cursor.execute\<close> returned: the number of affected rows (the
  value \<open>execute\<close> returns), \<open>cursor.lastrowid\<close>, and the rows of the result set, of which
  \<open>cursor.fetchone()\<close> takes the first (\<open>None\<close> when there is none).
\<close>

record executed =
  rowcount :: nat
  lastrowid :: int
  fetched :: "pydict list"

text \<open>
  The database driver and server are outside the repository, so a connection is given by
  what it answers: whether \<open>connection.cursor()\<close> raises, what \<open>cursor.execute\<close> does with
  a statement and its parameters, and whether \<open>commit\<close>, \<open>rollback\<close> and \<open>close\<close> raise.
\<close>

record connection =
  open_cursor :: "exn option"
  execute :: "statement \<Rightarrow> pyval \<Rightarrow> exn + executed"
  commit_raises :: "exn option"
  rollback_raises :: "exn option"
  close_raises :: "exn option"

definition fetchone :: "executed \<Rightarrow> pyval" where
  "fetchone r = (case fetched r of [] \<Rightarrow> PNone | row # _ \<Rightarrow> PDict row)"

section \<open>model/admin/create_product_dao.py\<close>

text \<open>
  Each method opens a cursor in a \<open>with\<close> block, executes one statement with \<open>data\<close> as
  its parameters and tests one value of the cursor. An exception of the driver leaves the
  method as it is: there is no \<open>try\<close> in this file.
\<close>

definition insert_product :: "connection \<Rightarrow> pydict \<Rightarrow> exn + pyval" where
  "insert_product connection data =
     (case open_cursor connection of
        Some e \<Rightarrow> Inl e
      | None \<Rightarrow>
          (case execute connection INSERT_products (PDict data) of
             Inl e \<Rightarrow> Inl e
           | Inr r \<Rightarrow>
               (let product_id = PInt (lastrowid r)
                in if \<not> truthy product_id
                   then Inl (Exn ProductCreateDenied ''unable_to_create_product'')
                   else Inr product_id)))"

definition update_product_code :: "connection \<Rightarrow> pydict \<Rightarrow> exn + pyval" where
  "update_product_code connection data =
     (case open_cursor connection of
        Some e \<Rightarrow> Inl e
      | None \<Rightarrow>
          (case execute connection UPDATE_products_product_code (PDict data) of
             Inl e \<Rightarrow> Inl e
           | Inr r \<Rightarrow>
               (let result = PInt (int (rowcount r))
                in if \<not> truthy result
                   then Inl (Exn ProductCodeUpdatedDenied ''unable_to_update_product_code'')
                   else Inr PNone)))"

definition insert_product_image :: "connection \<Rightarrow> pydict \<Rightarrow> exn + pyval" where
  "insert_product_image connection data =
     (case open_cursor connection of
        Some e \<Rightarrow> Inl e
      | None \<Rightarrow>
          (case execute connection INSERT_product_images (PDict data) of
             Inl e \<Rightarrow> Inl e
           | Inr r \<Rightarrow>
               (let result = PInt (lastrowid r)
                in if \<not> truthy result
                   then Inl (Exn ProductImageCreateDenied ''unable_to_create_product_image'')
                   else Inr PNone)))"

definition insert_stock :: "connection \<Rightarrow> pydict \<Rightarrow> exn + pyval" where
  "insert_stock connection data =
     (case open_cursor connection of
        Some e \<Rightarrow> Inl e
      | None \<Rightarrow>
          (case execute connection INSERT_stocks (PDict data) of
             Inl e \<Rightarrow> Inl e
           | Inr r \<Rightarrow>
               (let result = PInt (int (rowcount r))
                in if \<not> truthy result
                   then Inl (Exn StockCreateDenied ''unable_to_create_stocks'')
                   else Inr PNone)))"

definition insert_product_history :: "connection \<Rightarrow> pydict \<Rightarrow> exn + pyval" where
  "insert_product_history connection data =
     (case open_cursor connection of
        Some e \<Rightarrow> Inl e
      | None \<Rightarrow>
          (case execute connection INSERT_product_histories (PDict data) of
             Inl e \<Rightarrow> Inl e
           | Inr r \<Rightarrow>
               (let result = PInt (int (rowcount r))
                in if \<not> truthy result
                   then Inl (Exn ProductHistoryCreateDenied ''unable_to_create_product_history'')
                   else Inr PNone)))"

section \<open>model/store/sender_dao.py\<close>

text \<open>
  Both methods run their lookup inside \<open>try\<close> and answer every \<open>Exception\<close> raised there
  with \<open>ServerError('server_error')\<close>. The parameter of the statement is
  \<open>data['user_id']\<close>, evaluated after the cursor is opened. \<open>traceback.print_exc()\<close> writes
  to standard error only and has no part in the result.
\<close>

definition empty_sender :: pydict where
  "empty_sender = [(''name'', PStr ''''), (''phone'', PStr ''''), (''email'', PStr '''')]"

definition get_sender_info_dao_try :: "connection \<Rightarrow> pydict \<Rightarrow> exn + pyval" where
  "get_sender_info_dao_try connection data =
     (case open_cursor connection of
        Some e \<Rightarrow> Inl e
      | None \<Rightarrow>
          (case getitem data ''user_id'' of
             Inl e \<Rightarrow> Inl e
           | Inr user_id \<Rightarrow>
               (case execute connection SELECT_customer_information user_id of
                  Inl e \<Rightarrow> Inl e
                | Inr r \<Rightarrow>
                    (let result = fetchone r
                     in if \<not> truthy result then Inr (PDict empty_sender) else Inr result))))"

definition get_sender_info_dao :: "connection \<Rightarrow> pydict \<Rightarrow> exn + pyval" where
  "get_sender_info_dao connection data =
     (case get_sender_info_dao_try connection data of
        Inl e \<Rightarrow> Inl (Exn ServerError ''server_error'')
      | Inr v \<Rightarrow> Inr v)"

definition get_user_permission_check_dao_try :: "connection \<Rightarrow> pydict \<Rightarrow> exn + pyval" where
  "get_user_permission_check_dao_try connection data =
     (case open_cursor connection of
        Some e \<Rightarrow> Inl e
      | None \<Rightarrow>
          (case getitem data ''user_id'' of
             Inl e \<Rightarrow> Inl e
           | Inr user_id \<Rightarrow>
               (case execute connection SELECT_accounts_permission user_id of
                  Inl e \<Rightarrow> Inl e
                | Inr r \<Rightarrow>
                    (let result = fetchone r
                     in if \<not> truthy result
                        then Inl (Exn AccountNotExist ''account_does_not_exist'')
                        else Inr result))))"

definition get_user_permission_check_dao :: "connection \<Rightarrow> pydict \<Rightarrow> exn + pyval" where
  "get_user_permission_check_dao connection data =
     (case get_user_permission_check_dao_try connection data of
        Inl e \<Rightarrow> Inl (Exn ServerError ''server_error'')
      | Inr v \<Rightarrow> Inr v)"

section \<open>service/store/seller_shop_service.py\<close>

text \<open>
  \<open>SellerShopDao\<close> is not among the sources: the service holds it as an attribute, and
  each of its four methods is given by what it returns or raises.
\<close>

record seller_shop_dao =
  get_seller_info_dao :: "connection \<Rightarrow> pydict \<Rightarrow> exn + pyval"
  get_seller_product_search_dao :: "connection \<Rightarrow> pydict \<Rightarrow> exn + pyval"
  get_seller_category_dao :: "connection \<Rightarrow> pydict \<Rightarrow> exn + pyval"
  get_seller_product_list_dao :: "connection \<Rightarrow> pydict \<Rightarrow> exn + pyval"

text \<open>
  \<open>try: return dao(...)\<close> with the single clause \<open>except KeyError\<close>, which raises a new
  \<open>KeyError('key_error')\<close>; an exception of another class is not caught.
  \<open>traceback.print_exc()\<close> in the clause writes to standard error only.
\<close>

definition get_seller_info_service ::
  "seller_shop_dao \<Rightarrow> connection \<Rightarrow> pydict \<Rightarrow> exn + pyval" where
  "get_seller_info_service seller_shop_dao connection data =
     (case get_seller_info_dao seller_shop_dao connection data of
        Inr v \<Rightarrow> Inr v
      | Inl e \<Rightarrow> if isinstance e KeyError then Inl (Exn KeyError ''key_error'') else Inl e)"

definition get_seller_product_search_service ::
  "seller_shop_dao \<Rightarrow> connection \<Rightarrow> pydict \<Rightarrow> exn + pyval" where
  "get_seller_product_search_service seller_shop_dao connection data =
     (case get_seller_product_search_dao seller_shop_dao connection data of
        Inr v \<Rightarrow> Inr v
      | Inl e \<Rightarrow> if isinstance e KeyError then Inl (Exn KeyError ''key_error'') else Inl e)"

definition get_seller_category_service ::
  "seller_shop_dao \<Rightarrow> connection \<Rightarrow> pydict \<Rightarrow> exn + pyval" where
  "get_seller_category_service seller_shop_dao connection data =
     (case get_seller_category_dao seller_shop_dao connection data of
        Inr v \<Rightarrow> Inr v
      | Inl e \<Rightarrow> if isinstance e KeyError then Inl (Exn KeyError ''key_error'') else Inl e)"

definition get_seller_product_list_service ::
  "seller_shop_dao \<Rightarrow> connection \<Rightarrow> pydict \<Rightarrow> exn + pyval" where
  "get_seller_product_list_service seller_shop_dao connection data =
     (case get_seller_product_list_dao seller_shop_dao connection data of
        Inr v \<Rightarrow> Inr v
      | Inl e \<Rightarrow> if isinstance e KeyError then Inl (Exn KeyError ''key_error'') else Inl e)"

section \<open>Running a view handler\<close>

text \<open>
  A handler runs in a frame: its local variable \<open>connection\<close>, unbound until the
  assignment, and the calls it has made so far to the world outside
  (\<open>get_connection\<close>, the service, and the connection's \<open>commit\<close>, \<open>rollback\<close> and
  \<open>close\<close>), in order. A statement takes the frame and gives back what it returned or
  raised, and the frame after it.
\<close>

datatype event = GetConnection | ServiceCall | Commit | Rollback | Close

record frame =
  local_connection :: "connection option"
  calls :: "event list"

type_synonym 'a prog = "frame \<Rightarrow> (exn + 'a) \<times> frame"

definition ok :: "'a \<Rightarrow> 'a prog" where
  "ok v s = (Inr v, s)"

definition throw :: "exn \<Rightarrow> 'a prog" where
  "throw e s = (Inl e, s)"

definition andthen :: "'a prog \<Rightarrow> ('a \<Rightarrow> 'b prog) \<Rightarrow> 'b prog" where
  "andthen m f s = (case m s of (Inl e, s') \<Rightarrow> (Inl e, s') | (Inr v, s') \<Rightarrow> f v s')"

text \<open>\<open>try: body except Exception as e: handler\<close>.\<close>

definition try_except :: "'a prog \<Rightarrow> (exn \<Rightarrow> 'a prog) \<Rightarrow> 'a prog" where
  "try_except body handler s =
     (case body s of (Inl e, s') \<Rightarrow> handler e s' | (Inr v, s') \<Rightarrow> (Inr v, s'))"

text \<open>
  \<open>try: body finally: fin\<close>: \<open>fin\<close> runs whatever \<open>body\<close> did; an exception of \<open>fin\<close>
  replaces the result of \<open>body\<close>, be it a returned value or an exception on its way out.
\<close>

definition try_finally :: "'a prog \<Rightarrow> unit prog \<Rightarrow> 'a prog" where
  "try_finally body fin s =
     (case body s of
        (r, s') \<Rightarrow> (case fin s' of (Inl e, s'') \<Rightarrow> (Inl e, s'') | (Inr u, s'') \<Rightarrow> (r, s'')))"

text \<open>A call to the outside: it is recorded, and returns or raises what the outside does.\<close>

definition call :: "event \<Rightarrow> exn + 'a \<Rightarrow> 'a prog" where
  "call ev r s = (r, s\<lparr>calls := calls s @ [ev]\<rparr>)"

text \<open>A computation without effect on the frame, such as indexing a value.\<close>

definition pure :: "exn + 'a \<Rightarrow> 'a prog" where
  "pure r s = (r, s)"

text \<open>\<open>connection = get_connection(self.database)\<close>: the name is bound only if the call returns.\<close>

definition assign_connection :: "exn + connection \<Rightarrow> unit prog" where
  "assign_connection r s =
     (case r of
        Inl e \<Rightarrow> (Inl e, s\<lparr>calls := calls s @ [GetConnection]\<rparr>)
      | Inr c \<Rightarrow> (Inr (), s\<lparr>local_connection := Some c, calls := calls s @ [GetConnection]\<rparr>))"

text \<open>
  Reading the local variable \<open>connection\<close>: \<open>UnboundLocalError\<close> (whose argument here is
  the variable's name) when nothing was assigned to it.
\<close>

definition read_connection :: "connection prog" where
  "read_connection s =
     (case local_connection s of
        None \<Rightarrow> (Inl (Exn UnboundLocalError ''connection''), s)
      | Some c \<Rightarrow> (Inr c, s))"

definition raises :: "exn option \<Rightarrow> exn + unit" where
  "raises r = (case r of None \<Rightarrow> Inr () | Some e \<Rightarrow> Inl e)"

text \<open>A connection object defines neither \<open>__bool__\<close> nor \<open>__len__\<close>: it is true.\<close>

definition connection_truthy :: "connection \<Rightarrow> bool" where
  "connection_truthy c = True"

text \<open>
  The \<open>finally\<close> block every handler ends with:
  \<^verbatim>\<open>
  try:
      if connection:
          connection.close()
  except Exception:
      raise DatabaseCloseFail(msg)
  \<close>
\<close>

definition close_connection :: "string \<Rightarrow> unit prog" where
  "close_connection msg =
     try_except
       (andthen read_connection (\<lambda>connection.
          if connection_truthy connection
          then call Close (raises (close_raises connection))
          else ok ()))
       (\<lambda>e. throw (Exn DatabaseCloseFail msg))"

definition run :: "'a prog \<Rightarrow> (exn + 'a) \<times> frame" where
  "run p = p \<lparr>local_connection = None, calls = []\<rparr>"

text \<open>What a handler returned or raised, and the calls it made, in a fresh frame.\<close>

definition outcome :: "'a prog \<Rightarrow> exn + 'a" where
  "outcome p = fst (run p)"

definition made_calls :: "'a prog \<Rightarrow> event list" where
  "made_calls p = calls (snd (run p))"

text \<open>\<open>args[i]\<close> on the tuple of validated parameters, and \<open>x[0]\<close> on any value.\<close>

definition tuple_item :: "pyval list \<Rightarrow> nat \<Rightarrow> exn + pyval" where
  "tuple_item args i =
     (if i < length args then Inr (args ! i) else Inl (Exn IndexError ''tuple index out of range''))"

fun getitem0 :: "pyval \<Rightarrow> exn + pyval" where
  "getitem0 (PList []) = Inl (Exn IndexError ''list index out of range'')"
| "getitem0 (PList (x # xs)) = Inr x"
| "getitem0 (PTuple []) = Inl (Exn IndexError ''tuple index out of range'')"
| "getitem0 (PTuple (x # xs)) = Inr x"
| "getitem0 (PStr []) = Inl (Exn IndexError ''string index out of range'')"
| "getitem0 (PStr (c # cs)) = Inr (PStr [c])"
| "getitem0 (PDict kvs) = Inl (Exn KeyError ''0'')"
| "getitem0 v = Inl (Exn TypeError ''object is not subscriptable'')"

text \<open>
  A dictionary literal whose values are \<open>args[i]\<close>, evaluated entry by entry: the first
  index out of range raises.
\<close>

fun dict_of_args :: "(string \<times> nat) list \<Rightarrow> pyval list \<Rightarrow> exn + pydict" where
  "dict_of_args [] args = Inr []"
| "dict_of_args ((k, i) # rest) args =
     (case tuple_item args i of
        Inl e \<Rightarrow> Inl e
      | Inr v \<Rightarrow> (case dict_of_args rest args of Inl e \<Rightarrow> Inl e | Inr d \<Rightarrow> Inr ((k, v) # d)))"

text \<open>
  What a handler finds outside \<open>src\<close>: the result of \<open>utils.connection.get_connection\<close>
  on the view's database settings, \<open>flask.jsonify\<close>, and the attributes of \<open>flask.g\<close> that
  \<open>signin_decorator\<close> has set.
\<close>

record view_env =
  get_connection :: "exn + connection"
  jsonify :: "pyval \<Rightarrow> exn + pyval"
  g_account_id :: pyval
  g_permission_type_id :: pyval

section \<open>view/store/destination_view.py\<close>

text \<open>The service object of the destination views is not among the sources.\<close>

record destination_service =
  get_destination_detail_service :: "connection \<Rightarrow> pydict \<Rightarrow> exn + pyval"
  get_destination_detail_by_user_service :: "connection \<Rightarrow> pydict \<Rightarrow> exn + pyval"
  create_destination_service :: "connection \<Rightarrow> pydict \<Rightarrow> exn + pyval"
  delete_destination_service :: "connection \<Rightarrow> pydict \<Rightarrow> exn + pyval"

definition DestinationDetailView_get ::
  "view_env \<Rightarrow> destination_service \<Rightarrow> pyval \<Rightarrow> pyval prog" where
  "DestinationDetailView_get env service destination_id =
     (let data = [(''destination_id'', destination_id)]
      in try_finally
           (try_except
              (andthen (assign_connection (get_connection env)) (\<lambda>u.
               andthen read_connection (\<lambda>connection.
               andthen (call ServiceCall (get_destination_detail_service service connection data))
                 (\<lambda>destination_detail.
               andthen (pure (getitem0 destination_detail)) (\<lambda>first.
               ok (PDict [(''message'', PStr ''success''), (''result'', first)]))))))
              (\<lambda>e. throw e))
           (close_connection ''database_close_failed''))"

definition DestinationView_get :: "view_env \<Rightarrow> destination_service \<Rightarrow> pyval prog" where
  "DestinationView_get env service =
     (let account_id = PInt 120;
          data = [(''account_id'', account_id)]
      in try_finally
           (try_except
              (andthen (assign_connection (get_connection env)) (\<lambda>u.
               andthen read_connection (\<lambda>connection.
               andthen (call ServiceCall
                          (get_destination_detail_by_user_service service connection data))
                 (\<lambda>destination_detail.
               ok (PDict [(''message'', PStr ''success''), (''result'', destination_detail)])))))
              (\<lambda>e. throw e))
           (close_connection ''database_close_failed''))"

text \<open>The keys of \<open>data\<close> in \<open>post\<close> and the index of \<open>args\<close> each one takes.\<close>

definition DestinationView_post_fields :: "(string \<times> nat) list" where
  "DestinationView_post_fields =
     [(''user_id'', 0), (''recipient'', 1), (''phone'', 2), (''address1'', 3),
      (''address2'', 4), (''post_number'', 5)]"

definition DestinationView_post ::
  "view_env \<Rightarrow> destination_service \<Rightarrow> pyval list \<Rightarrow> pyval prog" where
  "DestinationView_post env service args =
     andthen
       (pure (dict_of_args DestinationView_post_fields args))
       (\<lambda>data.
          try_finally
            (try_except
               (andthen (assign_connection (get_connection env)) (\<lambda>u.
                andthen read_connection (\<lambda>connection.
                andthen (call ServiceCall (create_destination_service service connection data))
                  (\<lambda>r.
                andthen read_connection (\<lambda>connection.
                andthen (call Commit (raises (commit_raises connection))) (\<lambda>u.
                ok (PDict [(''message'', PStr ''success'')])))))))
               (\<lambda>e.
                andthen read_connection (\<lambda>connection.
                andthen (call Rollback (raises (rollback_raises connection))) (\<lambda>u.
                throw e))))
            (close_connection ''database close fail''))"

definition DestinationView_delete ::
  "view_env \<Rightarrow> destination_service \<Rightarrow> pyval list \<Rightarrow> pyval prog" where
  "DestinationView_delete env service args =
     (let account_id = PInt 120
      in andthen (pure (tuple_item args 0)) (\<lambda>destination_id.
         (let data = [(''destination_id'', destination_id), (''account_id'', account_id)]
          in try_finally
               (try_except
                  (andthen (assign_connection (get_connection env)) (\<lambda>u.
                   andthen read_connection (\<lambda>connection.
                   andthen (call ServiceCall
                              (delete_destination_service service connection data)) (\<lambda>r.
                   andthen read_connection (\<lambda>connection.
                   andthen (call Commit (raises (commit_raises connection))) (\<lambda>u.
                   ok (PDict [(''message'', PStr ''success'')])))))))
                  (\<lambda>e.
                   andthen read_connection (\<lambda>connection.
                   andthen (call Rollback (raises (rollback_raises connection))) (\<lambda>u.
                   throw e))))
               (close_connection ''database close fail''))))"

section \<open>view/store/store_order_view.py\<close>

record store_order_service =
  get_store_order_service :: "connection \<Rightarrow> pydict \<Rightarrow> exn + pyval"
  post_order_service :: "connection \<Rightarrow> pydict \<Rightarrow> exn + pyval"

definition StoreOrderView_get ::
  "view_env \<Rightarrow> store_order_service \<Rightarrow> pyval list \<Rightarrow> pyval prog" where
  "StoreOrderView_get env service args =
     andthen (pure (tuple_item args 0)) (\<lambda>order_id.
       (let data = [(''order_id'', order_id), (''user_id'', g_account_id env),
                    (''user_permission'', g_permission_type_id env)]
        in try_finally
             (try_except
                (andthen (assign_connection (get_connection env)) (\<lambda>u.
                 andthen read_connection (\<lambda>connection.
                 andthen (call ServiceCall (get_store_order_service service connection data))
                   (\<lambda>store_order_info.
                 pure (jsonify env
                         (PDict [(''message'', PStr ''success''),
                                 (''result'', store_order_info)]))))))
                (\<lambda>e. throw e))
             (close_connection ''database close fail'')))"

text \<open>
  The keys of \<open>data\<close> in \<open>post\<close> that come from \<open>args\<close>; \<open>user_id\<close> and
  \<open>user_permission\<close>, from \<open>flask.g\<close>, precede them.
\<close>

definition StoreOrderAddView_post_fields :: "(string \<times> nat) list" where
  "StoreOrderAddView_post_fields =
     [(''cart_id'', 0), (''product_id'', 1), (''stock_id'', 2), (''quantity'', 3),
      (''original_price'', 4), (''sale'', 5), (''discounted_price'', 6),
      (''total_price'', 7), (''sold_out'', 8), (''sender_name'', 9),
      (''sender_phone'', 10), (''sender_email'', 11), (''recipient_name'', 12),
      (''recipient_phone'', 13), (''address1'', 14), (''address2'', 15),
      (''post_number'', 16), (''delivery_memo_type_id'', 17),
      (''delivery_content'', 18)]"

definition StoreOrderAddView_post_data :: "view_env \<Rightarrow> pydict \<Rightarrow> pydict" where
  "StoreOrderAddView_post_data env from_args =
     (''user_id'', g_account_id env) # (''user_permission'', g_permission_type_id env)
     # from_args"

definition StoreOrderAddView_post ::
  "view_env \<Rightarrow> store_order_service \<Rightarrow> pyval list \<Rightarrow> pyval prog" where
  "StoreOrderAddView_post env service args =
     andthen
       (pure (dict_of_args StoreOrderAddView_post_fields args))
       (\<lambda>from_args.
          (let data = StoreOrderAddView_post_data env from_args
           in try_finally
                (try_except
                   (andthen (assign_connection (get_connection env)) (\<lambda>u.
                    andthen read_connection (\<lambda>connection.
                    andthen (call ServiceCall (post_order_service service connection data))
                      (\<lambda>order_id.
                    andthen read_connection (\<lambda>connection.
                    andthen (call Commit (raises (commit_raises connection))) (\<lambda>u.
                    ok (PTuple [PDict [(''message'', PStr ''success''),
                                       (''result'', PDict [(''order_id'', order_id)])],
                                PInt 201])))))))
                   (\<lambda>e.
                    andthen read_connection (\<lambda>connection.
                    andthen (call Rollback (raises (rollback_raises connection))) (\<lambda>u.
                    throw e))))
                (close_connection ''database close fail'')))"

section \<open>Parameter validation\<close>

text \<open>
  The rules of \<open>utils.rules\<close> that the handlers declare. Their patterns are not among the
  sources, so what a rule accepts is a parameter \<open>accepts\<close> of the validation.
\<close>

datatype rule = NumberRule | PhoneRule | PostalCodeRule | DecimalRule | EmailRule

datatype pytype = Py_str | Py_int | Py_bool

datatype source = JSON | PATH

record param =
  param_name :: string
  param_source :: source
  param_type :: pytype
  param_rules :: "rule list"
  param_required :: bool

definition Param :: "string \<Rightarrow> source \<Rightarrow> pytype \<Rightarrow> rule list \<Rightarrow> bool \<Rightarrow> param" where
  "Param n src t rs req =
     \<lparr>param_name = n, param_source = src, param_type = t, param_rules = rs,
      param_required = req\<rparr>"

record request =
  request_json :: pydict
  request_path :: pydict

fun has_type :: "pytype \<Rightarrow> pyval \<Rightarrow> bool" where
  "has_type Py_str (PStr s) = True"
| "has_type Py_int (PInt i) = True"
| "has_type Py_bool (PBool b) = True"
| "has_type t v = False"

definition param_value :: "request \<Rightarrow> param \<Rightarrow> pyval" where
  "param_value req p =
     (case map_of (case param_source p of JSON \<Rightarrow> request_json req | PATH \<Rightarrow> request_path req)
                  (param_name p) of
        None \<Rightarrow> PNone
      | Some v \<Rightarrow> v)"

fun breaks_rule :: "(rule \<Rightarrow> string \<Rightarrow> bool) \<Rightarrow> rule list \<Rightarrow> pyval \<Rightarrow> bool" where
  "breaks_rule accepts rs (PStr s) = list_ex (\<lambda>r. \<not> accepts r s) rs"
| "breaks_rule accepts rs v = False"

definition param_rejected :: "(rule \<Rightarrow> string \<Rightarrow> bool) \<Rightarrow> request \<Rightarrow> param \<Rightarrow> bool" where
  "param_rejected accepts req p =
     (let v = param_value req p
      in if v = PNone then param_required p
         else if \<not> has_type (param_type p) v then True
         else breaks_rule accepts (param_rules p) v)"

text \<open>
  Modelled from the spec: the decorator \<open>validate_params\<close> of the package
  \<open>flask_request_validator\<close>, which is missing from the sources (only its uses, the
  \<open>Param\<close> declarations above each handler, are there). A view is "validate input shape,
  build a data dict, call service", and validation "rejects malformed inputs before
  reaching the database": the decorator checks every declared parameter of the request
  (presence when required, type, then the parameter's rules) and raises its validation
  error, here with the name of the first parameter it rejects, without calling the
  handler; otherwise it calls the handler with the parameters' values in the order of
  their declaration.
\<close>

definition validate_params ::
  "(rule \<Rightarrow> string \<Rightarrow> bool) \<Rightarrow> param list \<Rightarrow> (pyval list \<Rightarrow> 'a prog) \<Rightarrow> request \<Rightarrow> 'a prog" where
  "validate_params accepts params handler req =
     (case List.find (param_rejected accepts req) params of
        Some p \<Rightarrow> throw (Exn InvalidRequest (param_name p))
      | None \<Rightarrow> handler (map (param_value req) params))"

definition DestinationView_post_params :: "param list" where
  "DestinationView_post_params =
     [Param ''user_id'' JSON Py_str [NumberRule] True,
      Param ''recipient'' JSON Py_str [] True,
      Param ''phone'' JSON Py_str [PhoneRule] True,
      Param ''address1'' JSON Py_str [] True,
      Param ''address2'' JSON Py_str [] True,
      Param ''post_number'' JSON Py_str [PostalCodeRule] True]"

definition StoreOrderAddView_post_params :: "param list" where
  "StoreOrderAddView_post_params =
     [Param ''cartId'' JSON Py_int [] True,
      Param ''productId'' JSON Py_int [] True,
      Param ''stockId'' JSON Py_int [] True,
      Param ''quantity'' JSON Py_int [] True,
      Param ''originalPrice'' JSON Py_int [] True,
      Param ''sale'' JSON Py_str [DecimalRule] True,
      Param ''discountedPrice'' JSON Py_int [] True,
      Param ''totalPrice'' JSON Py_int [] True,
      Param ''soldOut'' JSON Py_bool [] True,
      Param ''senderName'' JSON Py_str [] True,
      Param ''senderPhone'' JSON Py_str [PhoneRule] True,
      Param ''senderEmail'' JSON Py_str [EmailRule] True,
      Param ''recipientName'' JSON Py_str [] True,
      Param ''recipientPhone'' JSON Py_str [PhoneRule] True,
      Param ''address1'' JSON Py_str [] True,
      Param ''address2'' JSON Py_str [] True,
      Param ''postNumber'' JSON Py_str [PostalCodeRule] True,
      Param ''deliveryId'' JSON Py_int [] True,
      Param ''deliveryMemo'' JSON Py_str [] False]"

text \<open>
  The handlers as the framework calls them, under their decorators.

  \<open>signin_decorator\<close> of \<open>utils.decorator\<close> wraps the order handler from outside, so it
  runs before the validation. It is not among the sources and the specification does not
  describe it, so it is a parameter \<open>signin\<close>: what it returns or raises, and the calls it
  made on the way (it may open a connection of its own to look the account up). When it
  returns, it has set the attributes of \<open>flask.g\<close> and calls the validated handler; when it
  raises, nothing below it runs.
\<close>

definition signin_decorator :: "(exn + unit) \<times> event list \<Rightarrow> 'a prog \<Rightarrow> 'a prog" where
  "signin_decorator signin inner s =
     (case signin of
        (Inl e, made) \<Rightarrow> (Inl e, s\<lparr>calls := calls s @ made\<rparr>)
      | (Inr u, made) \<Rightarrow> inner (s\<lparr>calls := calls s @ made\<rparr>))"

definition DestinationView_post_endpoint ::
  "(rule \<Rightarrow> string \<Rightarrow> bool) \<Rightarrow> view_env \<Rightarrow> destination_service \<Rightarrow> request \<Rightarrow> pyval prog" where
  "DestinationView_post_endpoint accepts env service req =
     validate_params accepts DestinationView_post_params (DestinationView_post env service) req"

definition StoreOrderAddView_post_endpoint ::
  "(rule \<Rightarrow> string \<Rightarrow> bool) \<Rightarrow> (exn + unit) \<times> event list \<Rightarrow> view_env
     \<Rightarrow> store_order_service \<Rightarrow> request \<Rightarrow> pyval prog" where
  "StoreOrderAddView_post_endpoint accepts signin env service req =
     signin_decorator signin
       (validate_params accepts StoreOrderAddView_post_params
          (StoreOrderAddView_post env service) req)"

section \<open>The products table behind the UPDATE\<close>

text \<open>
  The columns of \<open>products\<close> that the statement of \<open>update_product_code\<close> names:
  \<^verbatim>\<open>UPDATE products SET `product_code` = %(product_code)s
  WHERE id = %(product_id)s AND is_deleted = 0;\<close>
  \<open>product_code\<close> is \<open>None\<close> while it is \<open>NULL\<close>.
\<close>

record product_row =
  row_id :: int
  row_product_code :: "string option"
  row_is_deleted :: int

text \<open>The \<open>WHERE\<close> clause: the row with the given id, unless it is soft-deleted.\<close>

definition update_selects :: "int \<Rightarrow> product_row \<Rightarrow> bool" where
  "update_selects product_id row = (row_id row = product_id \<and> row_is_deleted row = 0)"

text \<open>
  The number of affected rows a MySQL server reports for the statement, which is what
  \<open>cursor.execute\<close> returns: the selected rows that the update changes, or all selected
  rows when the connection was opened with the client flag \<open>FOUND_ROWS\<close>. How
  \<open>get_connection\<close> opens the connection is not among the sources, so the flag is a
  parameter.
\<close>

definition affected_by_update :: "bool \<Rightarrow> product_row list \<Rightarrow> string \<Rightarrow> int \<Rightarrow> nat" where
  "affected_by_update found_rows products product_code product_id =
     length (filter (\<lambda>row. update_selects product_id row
                            \<and> (found_rows \<or> row_product_code row \<noteq> Some product_code))
                    products)"

section \<open>Sample connections and services\<close>

text \<open>A healthy connection on which every statement executes with the result \<open>r\<close>.\<close>

definition answering :: "executed \<Rightarrow> connection" where
  "answering r =
     \<lparr>open_cursor = None, execute = (\<lambda>stmt args. Inr r), commit_raises = None,
      rollback_raises = None, close_raises = None\<rparr>"

text \<open>A connection whose driver raises \<open>e\<close> on every statement.\<close>

definition failing :: "exn \<Rightarrow> connection" where
  "failing e =
     \<lparr>open_cursor = None, execute = (\<lambda>stmt args. Inl e), commit_raises = None,
      rollback_raises = None, close_raises = None\<rparr>"

definition no_result :: executed where
  "no_result = \<lparr>rowcount = 0, lastrowid = 0, fetched = []\<rparr>"

definition one_row :: "int \<Rightarrow> executed" where
  "one_row new_id = \<lparr>rowcount = 1, lastrowid = new_id, fetched = []\<rparr>"

definition found :: "pydict \<Rightarrow> executed" where
  "found row = \<lparr>rowcount = 1, lastrowid = 0, fetched = [row]\<rparr>"

text \<open>A connection like \<open>answering r\<close> whose \<open>close\<close> raises.\<close>

definition unclosable :: "executed \<Rightarrow> connection" where
  "unclosable r =
     \<lparr>open_cursor = None, execute = (\<lambda>stmt args. Inr r), commit_raises = None,
      rollback_raises = None,
      close_raises = Some (Exn (OtherError ''Error'') ''Already closed'')\<rparr>"

text \<open>The surroundings of a handler when \<open>get_connection\<close> does \<open>r\<close>.\<close>

definition sample_env :: "exn + connection \<Rightarrow> view_env" where
  "sample_env r =
     \<lparr>get_connection = r, jsonify = (\<lambda>v. Inr (PJson v)), g_account_id = PInt 120,
      g_permission_type_id = PInt 3\<rparr>"

text \<open>Services and a data-access object whose every method does \<open>r\<close>.\<close>

definition destination_service_doing :: "exn + pyval \<Rightarrow> destination_service" where
  "destination_service_doing r =
     \<lparr>get_destination_detail_service = (\<lambda>connection data. r),
      get_destination_detail_by_user_service = (\<lambda>connection data. r),
      create_destination_service = (\<lambda>connection data. r),
      delete_destination_service = (\<lambda>connection data. r)\<rparr>"

definition store_order_service_doing :: "exn + pyval \<Rightarrow> store_order_service" where
  "store_order_service_doing r =
     \<lparr>get_store_order_service = (\<lambda>connection data. r),
      post_order_service = (\<lambda>connection data. r)\<rparr>"

definition seller_shop_dao_doing :: "exn + pyval \<Rightarrow> seller_shop_dao" where
  "seller_shop_dao_doing r =
     \<lparr>get_seller_info_dao = (\<lambda>connection data. r),
      get_seller_product_search_dao = (\<lambda>connection data. r),
      get_seller_category_dao = (\<lambda>connection data. r),
      get_seller_product_list_dao = (\<lambda>connection data. r)\<rparr>"

text \<open>
  A stand-in for the rules of \<open>utils.rules\<close>: a decimal is a non-empty string of digits
  and points, an email contains \<open>@\<close>, and the other rules accept the non-empty strings of
  digits.
\<close>

fun sample_rules :: "rule \<Rightarrow> string \<Rightarrow> bool" where
  "sample_rules DecimalRule s = (s \<noteq> [] \<and> list_all (\<lambda>c. c \<in> set ''0123456789.'') s)"
| "sample_rules EmailRule s = (CHR ''@'' \<in> set s)"
| "sample_rules r s = (s \<noteq> [] \<and> list_all (\<lambda>c. c \<in> set ''0123456789'') s)"

text \<open>Validated parameters as the two \<open>post\<close> handlers receive them.\<close>

definition sample_destination_args :: "pyval list" where
  "sample_destination_args =
     [PStr ''120'', PStr ''Kim'', PStr ''01012341234'', PStr ''Seoul'', PStr ''101'',
      PStr ''12345'']"

definition sample_order_args :: "pyval list" where
  "sample_order_args =
     [PInt 1, PInt 2, PInt 3, PInt 1, PInt 10000, PStr ''0.1'', PInt 9000, PInt 9000,
      PBool False, PStr ''Kim'', PStr ''01012341234'', PStr ''kim@example.com'', PStr ''Lee'',
      PStr ''01056785678'', PStr ''Seoul'', PStr ''101'', PStr ''12345'', PInt 1, PNone]"

definition sample_destination_request :: "string \<Rightarrow> request" where
  "sample_destination_request phone =
     \<lparr>request_json =
        [(''user_id'', PStr ''120''), (''recipient'', PStr ''Kim''), (''phone'', PStr phone),
         (''address1'', PStr ''Seoul''), (''address2'', PStr ''101''),
         (''post_number'', PStr ''12345'')],
      request_path = []\<rparr>"

text \<open>
  A request for the order handler, complete and well-formed but for its discount rate
  \<open>sale\<close>; the optional \<open>deliveryMemo\<close> is left out.
\<close>

definition sample_order_request :: "string \<Rightarrow> request" where
  "sample_order_request sale =
     \<lparr>request_json =
        [(''cartId'', PInt 1), (''productId'', PInt 2), (''stockId'', PInt 3),
         (''quantity'', PInt 1), (''originalPrice'', PInt 10000), (''sale'', PStr sale),
         (''discountedPrice'', PInt 9000), (''totalPrice'', PInt 9000),
         (''soldOut'', PBool False), (''senderName'', PStr ''Kim''),
         (''senderPhone'', PStr ''01012341234''), (''senderEmail'', PStr ''kim@example.com''),
         (''recipientName'', PStr ''Lee''), (''recipientPhone'', PStr ''01056785678''),
         (''address1'', PStr ''Seoul''), (''address2'', PStr ''101''),
         (''postNumber'', PStr ''12345''), (''deliveryId'', PInt 1)],
      request_path = []\<rparr>"

text \<open>Sign-in letting the request through, and sign-in refusing its token; neither makes a call.\<close>

definition signed_in :: "(exn + unit) \<times> event list" where
  "signed_in = (Inr (), [])"

definition sign_in_refused :: "(exn + unit) \<times> event list" where
  "sign_in_refused = (Inl (Exn (OtherError ''InvalidAccessError'') ''invalid_token''), [])"

text \<open>A \<open>products\<close> table: a product with a code, and a soft-deleted one.\<close>

definition sample_products :: "product_row list" where
  "sample_products =
     [\<lparr>row_id = 1, row_product_code = Some ''P0001'', row_is_deleted = 0\<rparr>,
      \<lparr>row_id = 2, row_product_code = None, row_is_deleted = 1\<rparr>]"

text \<open>The connection of a server that reports \<open>n\<close> affected rows for every statement.\<close>

definition reporting :: "nat \<Rightarrow> connection" where
  "reporting n = answering \<lparr>rowcount = n, lastrowid = 0, fetched = []\<rparr>"

section \<open>What leaves a handler after its cleanup\<close>

text \<open>
  Two abbreviations for stating results. After \<open>connection.rollback()\<close> in an \<open>except\<close>
  clause that re-raises \<open>e\<close>: the exception of \<open>rollback\<close> if it raised, else \<open>e\<close>. After
  the \<open>finally\<close> block on a bound connection: \<open>DatabaseCloseFail\<close> if \<open>close\<close> raised, else
  the result \<open>r\<close> that was on its way out.
\<close>

definition after_rollback :: "connection \<Rightarrow> exn \<Rightarrow> exn + 'a" where
  "after_rollback c e = (case rollback_raises c of None \<Rightarrow> Inl e | Some e' \<Rightarrow> Inl e')"

definition after_close :: "connection \<Rightarrow> string \<Rightarrow> exn + 'a \<Rightarrow> exn + 'a" where
  "after_close c msg r =
     (if close_raises c = None then r else Inl (Exn DatabaseCloseFail msg))"

section \<open>The data-access methods of product creation\<close>

lemmas sample_connection_defs =
  answering_def failing_def unclosable_def no_result_def one_row_def found_def

text \<open>
  Claim C1, as the code has it. With the cursor open and the statement executed:
  \<open>insert_product\<close> returns \<open>cursor.lastrowid\<close>, the new row's identifier, unless it is zero,
  and then raises \<open>ProductCreateDenied\<close>; \<open>insert_product_image\<close> tests \<open>lastrowid\<close> the
  same way but returns \<open>None\<close>; \<open>insert_stock\<close> and \<open>insert_product_history\<close> return
  \<open>None\<close> unless the statement affected zero rows, and then raise their error. An
  exception of the driver, from opening the cursor or from executing the statement,
  leaves the method unchanged. No method has another outcome.
\<close>

theorem insert_outcomes:
  "(open_cursor c = None \<and> execute c INSERT_products (PDict d) = Inr r1 \<longrightarrow>
      insert_product c d =
        (if lastrowid r1 = 0 then Inl (Exn ProductCreateDenied ''unable_to_create_product'')
         else Inr (PInt (lastrowid r1))))
   \<and> (open_cursor c = None \<and> execute c INSERT_product_images (PDict d) = Inr r2 \<longrightarrow>
      insert_product_image c d =
        (if lastrowid r2 = 0
         then Inl (Exn ProductImageCreateDenied ''unable_to_create_product_image'')
         else Inr PNone))
   \<and> (open_cursor c = None \<and> execute c INSERT_stocks (PDict d) = Inr r3 \<longrightarrow>
      insert_stock c d =
        (if rowcount r3 = 0 then Inl (Exn StockCreateDenied ''unable_to_create_stocks'')
         else Inr PNone))
   \<and> (open_cursor c = None \<and> execute c INSERT_product_histories (PDict d) = Inr r4 \<longrightarrow>
      insert_product_history c d =
        (if rowcount r4 = 0
         then Inl (Exn ProductHistoryCreateDenied ''unable_to_create_product_history'')
         else Inr PNone))
   \<and> (open_cursor c = Some e \<longrightarrow>
      insert_product c d = Inl e \<and> insert_product_image c d = Inl e
      \<and> insert_stock c d = Inl e \<and> insert_product_history c d = Inl e)
   \<and> (open_cursor c = None \<and> execute c INSERT_products (PDict d) = Inl e \<longrightarrow>
      insert_product c d = Inl e)
   \<and> (open_cursor c = None \<and> execute c INSERT_product_images (PDict d) = Inl e \<longrightarrow>
      insert_product_image c d = Inl e)
   \<and> (open_cursor c = None \<and> execute c INSERT_stocks (PDict d) = Inl e \<longrightarrow>
      insert_stock c d = Inl e)
   \<and> (open_cursor c = None \<and> execute c INSERT_product_histories (PDict d) = Inl e \<longrightarrow>
      insert_product_history c d = Inl e)"
  by (simp add: insert_product_def insert_product_image_def insert_stock_def
      insert_product_history_def)

theorem insert_outcomes_witness:
  "insert_product (answering (one_row 7)) [(''product_name'', PStr ''shirt'')] = Inr (PInt 7)
   \<and> insert_product_image (answering (one_row 7)) [(''product_name'', PStr ''shirt'')]
       = Inr PNone
   \<and> insert_product_history (answering (one_row 7)) [(''product_name'', PStr ''shirt'')]
       = Inr PNone
   \<and> insert_stock (answering no_result) [(''product_name'', PStr ''shirt'')]
       = Inl (Exn StockCreateDenied ''unable_to_create_stocks'')
   \<and> insert_product (failing (Exn (OtherError ''IntegrityError'') ''seller_id''))
         [(''product_name'', PStr ''shirt'')]
       = Inl (Exn (OtherError ''IntegrityError'') ''seller_id'')"
  using insert_outcomes [where c = "failing (Exn (OtherError ''IntegrityError'') ''seller_id'')"
      and d = "[(''product_name'', PStr ''shirt'')]"
      and e = "Exn (OtherError ''IntegrityError'') ''seller_id''"]
    insert_outcomes [where c = "answering (one_row 7)"
      and d = "[(''product_name'', PStr ''shirt'')]" and ?r1.0 = "one_row 7"
      and ?r2.0 = "one_row 7" and ?r3.0 = "one_row 7" and ?r4.0 = "one_row 7"]
    insert_outcomes [where c = "answering no_result"
      and d = "[(''product_name'', PStr ''shirt'')]" and ?r1.0 = no_result
      and ?r2.0 = no_result and ?r3.0 = no_result and ?r4.0 = no_result]
  by (simp add: sample_connection_defs)

text \<open>
  Claim C1, as stated, fails: on a successful insert (one row affected, new identifier 7)
  \<open>insert_stock\<close> returns \<open>None\<close>, which is neither the identifier nor an error.
\<close>

theorem insert_stock_returns_None:
  "insert_stock (answering (one_row 7)) [(''product_id'', PInt 3)] = Inr PNone"
  by (simp add: insert_stock_def sample_connection_defs)

section \<open>The data-access methods of the sender\<close>

text \<open>
  Claim C4 against the code: the accounts lookup finds no row, the method raises
  \<open>AccountNotExist\<close> inside its own \<open>try\<close>, whose \<open>except Exception\<close> clause catches it, and
  the caller receives \<open>ServerError('server_error')\<close>.
\<close>

theorem permission_check_hides_missing_account:
  "get_user_permission_check_dao_try (answering no_result) [(''user_id'', PInt 1)]
     = Inl (Exn AccountNotExist ''account_does_not_exist'')
   \<and> get_user_permission_check_dao (answering no_result) [(''user_id'', PInt 1)]
     = Inl (Exn ServerError ''server_error'')"
  by (simp add: get_user_permission_check_dao_def get_user_permission_check_dao_try_def
      getitem_def fetchone_def sample_connection_defs)

text \<open>
  Claim C5. When the lookup of \<open>customer_information\<close> for the given \<open>user_id\<close> yields no
  row, \<open>get_sender_info_dao\<close> returns the dictionary of three empty strings and does not
  raise; when it yields a row, the method returns that row's name, phone and email.
\<close>

theorem sender_info_missing_row:
  "open_cursor c = None \<Longrightarrow> getitem data ''user_id'' = Inr user_id \<Longrightarrow>
   execute c SELECT_customer_information user_id = Inr r \<Longrightarrow>
   (fetched r = [] \<longrightarrow>
      get_sender_info_dao c data
        = Inr (PDict [(''name'', PStr ''''), (''phone'', PStr ''''), (''email'', PStr '''')]))
   \<and> (\<forall>n p e rest. fetched r = [(''name'', n), (''phone'', p), (''email'', e)] # rest \<longrightarrow>
      get_sender_info_dao c data = Inr (PDict [(''name'', n), (''phone'', p), (''email'', e)]))"
proof -
  assume cursor: "open_cursor c = None"
    and key: "getitem data ''user_id'' = Inr user_id"
    and executed: "execute c SELECT_customer_information user_id = Inr r"
  have lookup: "get_sender_info_dao_try c data =
      (if truthy (fetchone r) then Inr (fetchone r) else Inr (PDict empty_sender))"
    using cursor key executed by (simp add: get_sender_info_dao_try_def)
  have no_row: "\<not> truthy (fetchone r)" if "fetched r = []"
    using that by (simp add: fetchone_def)
  have first_row: "truthy (fetchone r) \<and> fetchone r = PDict row"
    if "fetched r = row # rest" and "row \<noteq> []" for row rest
    using that by (simp add: fetchone_def)
  show ?thesis
  proof (intro conjI impI allI)
    assume "fetched r = []"
    with lookup no_row show "get_sender_info_dao c data
        = Inr (PDict [(''name'', PStr ''''), (''phone'', PStr ''''), (''email'', PStr '''')])"
      by (simp add: get_sender_info_dao_def empty_sender_def)
  next
    fix n p e rest
    assume "fetched r = [(''name'', n), (''phone'', p), (''email'', e)] # rest"
    with lookup first_row [of "[(''name'', n), (''phone'', p), (''email'', e)]" rest]
    show "get_sender_info_dao c data
        = Inr (PDict [(''name'', n), (''phone'', p), (''email'', e)])"
      by (simp add: get_sender_info_dao_def)
  qed
qed

theorem sender_info_missing_row_witness:
  "open_cursor (answering no_result) = None
   \<and> getitem [(''user_id'', PInt 1)] ''user_id'' = Inr (PInt 1)
   \<and> execute (answering no_result) SELECT_customer_information (PInt 1) = Inr no_result
   \<and> fetched no_result = []
   \<and> get_sender_info_dao (answering no_result) [(''user_id'', PInt 1)]
       = Inr (PDict [(''name'', PStr ''''), (''phone'', PStr ''''), (''email'', PStr '''')])
   \<and> get_sender_info_dao
         (answering (found [(''name'', PStr ''Kim''), (''phone'', PStr ''01012341234''),
                            (''email'', PStr ''kim@example.com'')]))
         [(''user_id'', PInt 1)]
       = Inr (PDict [(''name'', PStr ''Kim''), (''phone'', PStr ''01012341234''),
                     (''email'', PStr ''kim@example.com'')])"
  using sender_info_missing_row [where c = "answering no_result"
      and data = "[(''user_id'', PInt 1)]" and user_id = "PInt 1" and r = no_result]
    sender_info_missing_row
      [where c = "answering (found [(''name'', PStr ''Kim''), (''phone'', PStr ''01012341234''),
                                    (''email'', PStr ''kim@example.com'')])"
         and data = "[(''user_id'', PInt 1)]" and user_id = "PInt 1"
         and r = "found [(''name'', PStr ''Kim''), (''phone'', PStr ''01012341234''),
                         (''email'', PStr ''kim@example.com'')]"]
  by (simp add: getitem_def sample_connection_defs)

section \<open>The seller shop service\<close>

text \<open>
  Claim C8. Each of the four methods of \<open>SellerShopService\<close> returns what its call of
  the data-access object returns; when that call raises a \<open>KeyError\<close> the method raises
  \<open>KeyError('key_error')\<close>; any other exception leaves the method unchanged.
\<close>

theorem seller_shop_service_passes_through:
  "(get_seller_info_dao dao c d = Inr v \<longrightarrow> get_seller_info_service dao c d = Inr v)
   \<and> (get_seller_info_dao dao c d = Inl e \<longrightarrow>
        get_seller_info_service dao c d
          = (if isinstance e KeyError then Inl (Exn KeyError ''key_error'') else Inl e))
   \<and> (get_seller_product_search_dao dao c d = Inr v \<longrightarrow>
        get_seller_product_search_service dao c d = Inr v)
   \<and> (get_seller_product_search_dao dao c d = Inl e \<longrightarrow>
        get_seller_product_search_service dao c d
          = (if isinstance e KeyError then Inl (Exn KeyError ''key_error'') else Inl e))
   \<and> (get_seller_category_dao dao c d = Inr v \<longrightarrow> get_seller_category_service dao c d = Inr v)
   \<and> (get_seller_category_dao dao c d = Inl e \<longrightarrow>
        get_seller_category_service dao c d
          = (if isinstance e KeyError then Inl (Exn KeyError ''key_error'') else Inl e))
   \<and> (get_seller_product_list_dao dao c d = Inr v \<longrightarrow>
        get_seller_product_list_service dao c d = Inr v)
   \<and> (get_seller_product_list_dao dao c d = Inl e \<longrightarrow>
        get_seller_product_list_service dao c d
          = (if isinstance e KeyError then Inl (Exn KeyError ''key_error'') else Inl e))"
  by (simp add: get_seller_info_service_def get_seller_product_search_service_def
      get_seller_category_service_def get_seller_product_list_service_def)

theorem seller_shop_service_witness:
  "get_seller_info_service (seller_shop_dao_doing (Inl (Exn KeyError ''seller_id'')))
       (answering no_result) [] = Inl (Exn KeyError ''key_error'')
   \<and> get_seller_category_service (seller_shop_dao_doing (Inl (Exn ServerError ''server_error'')))
       (answering no_result) [] = Inl (Exn ServerError ''server_error'')
   \<and> get_seller_product_list_service (seller_shop_dao_doing (Inr (PList [])))
       (answering no_result) [] = Inr (PList [])"
  using seller_shop_service_passes_through [where dao = "seller_shop_dao_doing (Inl (Exn KeyError ''seller_id''))"
      and c = "answering no_result" and d = "[]" and e = "Exn KeyError ''seller_id''"]
    seller_shop_service_passes_through [where dao = "seller_shop_dao_doing (Inl (Exn ServerError ''server_error''))"
      and c = "answering no_result" and d = "[]" and e = "Exn ServerError ''server_error''"]
    seller_shop_service_passes_through [where dao = "seller_shop_dao_doing (Inr (PList []))"
      and c = "answering no_result" and d = "[]" and v = "PList []"]
  by (simp add: seller_shop_dao_doing_def)

section \<open>The UPDATE of the product code\<close>

lemma no_rows_affected:
  "affected_by_update found_rows products product_code product_id = 0
   \<longleftrightarrow> \<not> list_ex (\<lambda>row. update_selects product_id row
                          \<and> (found_rows \<or> row_product_code row \<noteq> Some product_code)) products"
  by (auto simp: affected_by_update_def filter_empty_conv list_ex_iff)

text \<open>
  Claim C6, as the code has it. The cursor is open, the statement executes with the
  parameters \<open>product_code\<close> and \<open>product_id\<close> of \<open>data\<close>, and the server reports its
  affected rows on the table \<open>products\<close>. When no row has the given id and
  \<open>is_deleted = 0\<close> (the row does not exist, or is soft-deleted), the statement affects
  zero rows and the method raises \<open>ProductCodeUpdatedDenied\<close>. When such a row exists
  and the statement changes it (its stored code differs from the new one) or the
  connection counts the rows found, the method returns \<open>None\<close>. The method has no other
  outcome once the statement has executed.
\<close>

theorem update_product_code_outcomes:
  assumes "open_cursor c = None"
    and "getitem data ''product_code'' = Inr (PStr product_code)"
    and "getitem data ''product_id'' = Inr (PInt product_id)"
    and "execute c UPDATE_products_product_code (PDict data) = Inr r"
    and "rowcount r = affected_by_update found_rows products product_code product_id"
  shows "(\<not> list_ex (update_selects product_id) products \<longrightarrow>
            update_product_code c data
              = Inl (Exn ProductCodeUpdatedDenied ''unable_to_update_product_code''))
       \<and> (list_ex (\<lambda>row. update_selects product_id row
                        \<and> (found_rows \<or> row_product_code row \<noteq> Some product_code)) products
            \<longrightarrow> update_product_code c data = Inr PNone)
       \<and> (update_product_code c data = Inr PNone
            \<or> update_product_code c data
                = Inl (Exn ProductCodeUpdatedDenied ''unable_to_update_product_code''))"
  using assms no_rows_affected [of found_rows products product_code product_id]
  by (auto simp: update_product_code_def list_ex_iff)

theorem update_product_code_witness:
  "update_product_code
     (reporting (affected_by_update False sample_products ''P0002'' 1))
     [(''product_code'', PStr ''P0002''), (''product_id'', PInt 1)] = Inr PNone
   \<and> update_product_code
     (reporting (affected_by_update False sample_products ''P0002'' 2))
     [(''product_code'', PStr ''P0002''), (''product_id'', PInt 2)]
       = Inl (Exn ProductCodeUpdatedDenied ''unable_to_update_product_code'')"
  using update_product_code_outcomes
    [where c = "reporting (affected_by_update False sample_products ''P0002'' 1)"
       and data = "[(''product_code'', PStr ''P0002''), (''product_id'', PInt 1)]"
       and product_code = "''P0002''" and product_id = 1 and found_rows = False
       and products = sample_products
       and r = "\<lparr>rowcount = affected_by_update False sample_products ''P0002'' 1,
                 lastrowid = 0, fetched = []\<rparr>"]
    update_product_code_outcomes
    [where c = "reporting (affected_by_update False sample_products ''P0002'' 2)"
       and data = "[(''product_code'', PStr ''P0002''), (''product_id'', PInt 2)]"
       and product_code = "''P0002''" and product_id = 2 and found_rows = False
       and products = sample_products
       and r = "\<lparr>rowcount = affected_by_update False sample_products ''P0002'' 2,
                 lastrowid = 0, fetched = []\<rparr>"]
  by (simp add: reporting_def answering_def getitem_def sample_products_def
      update_selects_def)

text \<open>
  Claim C6, as stated, fails: product 1 exists and is not soft-deleted, but setting the
  code it already has changes no row, a server counting changed rows reports zero, and
  the method raises.
\<close>

theorem update_same_code_denied:
  "list_ex (update_selects 1) sample_products
   \<and> update_product_code
       (reporting (affected_by_update False sample_products ''P0001'' 1))
       [(''product_code'', PStr ''P0001''), (''product_id'', PInt 1)]
     = Inl (Exn ProductCodeUpdatedDenied ''unable_to_update_product_code'')"
  by (simp add: update_product_code_def reporting_def answering_def affected_by_update_def
      sample_products_def update_selects_def)

section \<open>The handlers, path by path\<close>

text \<open>
  The run of each handler in closed form: what the handler returns or raises, the frame
  it ends in and the calls it made, by what \<open>get_connection\<close>, the service, \<open>commit\<close>,
  \<open>rollback\<close> and \<open>close\<close> do.
\<close>

lemmas prog_defs =
  ok_def throw_def andthen_def try_except_def try_finally_def call_def pure_def
  assign_connection_def read_connection_def raises_def connection_truthy_def
  close_connection_def run_def after_close_def after_rollback_def

lemma DestinationDetailView_get_run:
  "run (DestinationDetailView_get env ds destination_id) =
     (case get_connection env of
        Inl e \<Rightarrow>
          (Inl (Exn DatabaseCloseFail ''database_close_failed''),
           \<lparr>local_connection = None, calls = [GetConnection]\<rparr>)
      | Inr c \<Rightarrow>
          (after_close c ''database_close_failed''
             (case get_destination_detail_service ds c [(''destination_id'', destination_id)] of
                Inl e \<Rightarrow> Inl e
              | Inr destination_detail \<Rightarrow>
                  (case getitem0 destination_detail of
                     Inl e \<Rightarrow> Inl e
                   | Inr first \<Rightarrow>
                       Inr (PDict [(''message'', PStr ''success''), (''result'', first)]))),
           \<lparr>local_connection = Some c, calls = [GetConnection, ServiceCall, Close]\<rparr>))"
  by (auto simp: DestinationDetailView_get_def prog_defs split: sum.splits option.splits)

lemma DestinationView_get_run:
  "run (DestinationView_get env ds) =
     (case get_connection env of
        Inl e \<Rightarrow>
          (Inl (Exn DatabaseCloseFail ''database_close_failed''),
           \<lparr>local_connection = None, calls = [GetConnection]\<rparr>)
      | Inr c \<Rightarrow>
          (after_close c ''database_close_failed''
             (case get_destination_detail_by_user_service ds c [(''account_id'', PInt 120)] of
                Inl e \<Rightarrow> Inl e
              | Inr destination_detail \<Rightarrow>
                  Inr (PDict [(''message'', PStr ''success''),
                              (''result'', destination_detail)])),
           \<lparr>local_connection = Some c, calls = [GetConnection, ServiceCall, Close]\<rparr>))"
  by (auto simp: DestinationView_get_def prog_defs split: sum.splits option.splits)

lemma StoreOrderView_get_run:
  "run (StoreOrderView_get env os args) =
     (case tuple_item args 0 of
        Inl e \<Rightarrow> (Inl e, \<lparr>local_connection = None, calls = []\<rparr>)
      | Inr order_id \<Rightarrow>
          (case get_connection env of
             Inl e \<Rightarrow>
               (Inl (Exn DatabaseCloseFail ''database close fail''),
                \<lparr>local_connection = None, calls = [GetConnection]\<rparr>)
           | Inr c \<Rightarrow>
               (after_close c ''database close fail''
                  (case get_store_order_service os c
                          [(''order_id'', order_id), (''user_id'', g_account_id env),
                           (''user_permission'', g_permission_type_id env)] of
                     Inl e \<Rightarrow> Inl e
                   | Inr store_order_info \<Rightarrow>
                       jsonify env (PDict [(''message'', PStr ''success''),
                                           (''result'', store_order_info)])),
                \<lparr>local_connection = Some c, calls = [GetConnection, ServiceCall, Close]\<rparr>)))"
  by (auto simp: StoreOrderView_get_def prog_defs split: sum.splits option.splits)

lemma DestinationView_post_run:
  "run (DestinationView_post env ds args) =
     (case dict_of_args DestinationView_post_fields args of
        Inl e \<Rightarrow> (Inl e, \<lparr>local_connection = None, calls = []\<rparr>)
      | Inr data \<Rightarrow>
          (case get_connection env of
             Inl e \<Rightarrow>
               (Inl (Exn DatabaseCloseFail ''database close fail''),
                \<lparr>local_connection = None, calls = [GetConnection]\<rparr>)
           | Inr c \<Rightarrow>
               (case create_destination_service ds c data of
                  Inl e \<Rightarrow>
                    (after_close c ''database close fail'' (after_rollback c e),
                     \<lparr>local_connection = Some c,
                      calls = [GetConnection, ServiceCall, Rollback, Close]\<rparr>)
                | Inr r \<Rightarrow>
                    (case commit_raises c of
                       None \<Rightarrow>
                         (after_close c ''database close fail''
                            (Inr (PDict [(''message'', PStr ''success'')])),
                          \<lparr>local_connection = Some c,
                           calls = [GetConnection, ServiceCall, Commit, Close]\<rparr>)
                     | Some e \<Rightarrow>
                         (after_close c ''database close fail'' (after_rollback c e),
                          \<lparr>local_connection = Some c,
                           calls = [GetConnection, ServiceCall, Commit, Rollback, Close]\<rparr>)))))"
  by (auto simp: DestinationView_post_def prog_defs split: sum.splits option.splits)

lemma DestinationView_delete_run:
  "run (DestinationView_delete env ds args) =
     (case tuple_item args 0 of
        Inl e \<Rightarrow> (Inl e, \<lparr>local_connection = None, calls = []\<rparr>)
      | Inr destination_id \<Rightarrow>
          (case get_connection env of
             Inl e \<Rightarrow>
               (Inl (Exn DatabaseCloseFail ''database close fail''),
                \<lparr>local_connection = None, calls = [GetConnection]\<rparr>)
           | Inr c \<Rightarrow>
               (case delete_destination_service ds c
                       [(''destination_id'', destination_id), (''account_id'', PInt 120)] of
                  Inl e \<Rightarrow>
                    (after_close c ''database close fail'' (after_rollback c e),
                     \<lparr>local_connection = Some c,
                      calls = [GetConnection, ServiceCall, Rollback, Close]\<rparr>)
                | Inr r \<Rightarrow>
                    (case commit_raises c of
                       None \<Rightarrow>
                         (after_close c ''database close fail''
                            (Inr (PDict [(''message'', PStr ''success'')])),
                          \<lparr>local_connection = Some c,
                           calls = [GetConnection, ServiceCall, Commit, Close]\<rparr>)
                     | Some e \<Rightarrow>
                         (after_close c ''database close fail'' (after_rollback c e),
                          \<lparr>local_connection = Some c,
                           calls = [GetConnection, ServiceCall, Commit, Rollback, Close]\<rparr>)))))"
  by (auto simp: DestinationView_delete_def prog_defs split: sum.splits option.splits)

lemma StoreOrderAddView_post_run:
  "run (StoreOrderAddView_post env os args) =
     (case dict_of_args StoreOrderAddView_post_fields args of
        Inl e \<Rightarrow> (Inl e, \<lparr>local_connection = None, calls = []\<rparr>)
      | Inr from_args \<Rightarrow>
          (case get_connection env of
             Inl e \<Rightarrow>
               (Inl (Exn DatabaseCloseFail ''database close fail''),
                \<lparr>local_connection = None, calls = [GetConnection]\<rparr>)
           | Inr c \<Rightarrow>
               (case post_order_service os c (StoreOrderAddView_post_data env from_args) of
                  Inl e \<Rightarrow>
                    (after_close c ''database close fail'' (after_rollback c e),
                     \<lparr>local_connection = Some c,
                      calls = [GetConnection, ServiceCall, Rollback, Close]\<rparr>)
                | Inr order_id \<Rightarrow>
                    (case commit_raises c of
                       None \<Rightarrow>
                         (after_close c ''database close fail''
                            (Inr (PTuple [PDict [(''message'', PStr ''success''),
                                                 (''result'', PDict [(''order_id'', order_id)])],
                                          PInt 201])),
                          \<lparr>local_connection = Some c,
                           calls = [GetConnection, ServiceCall, Commit, Close]\<rparr>)
                     | Some e \<Rightarrow>
                         (after_close c ''database close fail'' (after_rollback c e),
                          \<lparr>local_connection = Some c,
                           calls = [GetConnection, ServiceCall, Commit, Rollback, Close]\<rparr>)))))"
  by (auto simp: StoreOrderAddView_post_def prog_defs split: sum.splits option.splits)

lemmas run_lemmas =
  DestinationDetailView_get_run DestinationView_get_run StoreOrderView_get_run
  DestinationView_post_run DestinationView_delete_run StoreOrderAddView_post_run

lemma dict_of_sample_destination_args:
  "dict_of_args DestinationView_post_fields sample_destination_args =
     Inr [(''user_id'', PStr ''120''), (''recipient'', PStr ''Kim''),
          (''phone'', PStr ''01012341234''), (''address1'', PStr ''Seoul''),
          (''address2'', PStr ''101''), (''post_number'', PStr ''12345'')]"
  by (simp add: DestinationView_post_fields_def sample_destination_args_def tuple_item_def)

lemma dict_of_sample_order_args:
  "dict_of_args StoreOrderAddView_post_fields sample_order_args =
     Inr [(''cart_id'', PInt 1), (''product_id'', PInt 2), (''stock_id'', PInt 3),
          (''quantity'', PInt 1), (''original_price'', PInt 10000), (''sale'', PStr ''0.1''),
          (''discounted_price'', PInt 9000), (''total_price'', PInt 9000),
          (''sold_out'', PBool False), (''sender_name'', PStr ''Kim''),
          (''sender_phone'', PStr ''01012341234''),
          (''sender_email'', PStr ''kim@example.com''), (''recipient_name'', PStr ''Lee''),
          (''recipient_phone'', PStr ''01056785678''), (''address1'', PStr ''Seoul''),
          (''address2'', PStr ''101''), (''post_number'', PStr ''12345''),
          (''delivery_memo_type_id'', PInt 1), (''delivery_content'', PNone)]"
  by (simp add: StoreOrderAddView_post_fields_def sample_order_args_def tuple_item_def)

section \<open>Commit, rollback and close in the handlers\<close>

text \<open>
  Claim C2. In \<open>DestinationView.post\<close> and \<open>StoreOrderAddView.post\<close>,
  \<open>connection.commit()\<close> is called if and only if the service call returns without
  raising. When the service call raises, the handler calls \<open>connection.rollback()\<close> right
  after it and never \<open>commit\<close>, and ends by raising: the service's exception when
  \<open>rollback\<close> and \<open>close\<close> return. The handler returns its success response only after a
  \<open>commit\<close> that returned, with no \<open>rollback\<close>: the rows of the transaction are committed
  together or not at all.
\<close>

theorem write_handlers_commit_or_rollback:
  "(Commit \<in> set (made_calls (DestinationView_post env ds args))
      \<longleftrightarrow> (\<exists>data c v. dict_of_args DestinationView_post_fields args = Inr data
             \<and> get_connection env = Inr c \<and> create_destination_service ds c data = Inr v))
   \<and> (\<forall>data c e. dict_of_args DestinationView_post_fields args = Inr data
          \<and> get_connection env = Inr c \<and> create_destination_service ds c data = Inl e
        \<longrightarrow> made_calls (DestinationView_post env ds args)
              = [GetConnection, ServiceCall, Rollback, Close]
            \<and> (\<exists>e'. outcome (DestinationView_post env ds args) = Inl e')
            \<and> (rollback_raises c = None \<and> close_raises c = None
                 \<longrightarrow> outcome (DestinationView_post env ds args) = Inl e))
   \<and> (\<forall>v. outcome (DestinationView_post env ds args) = Inr v
        \<longrightarrow> made_calls (DestinationView_post env ds args)
              = [GetConnection, ServiceCall, Commit, Close]
            \<and> (\<exists>c. get_connection env = Inr c \<and> commit_raises c = None))
   \<and> (Commit \<in> set (made_calls (StoreOrderAddView_post env os args))
      \<longleftrightarrow> (\<exists>xs c v. dict_of_args StoreOrderAddView_post_fields args = Inr xs
             \<and> get_connection env = Inr c
             \<and> post_order_service os c (StoreOrderAddView_post_data env xs) = Inr v))
   \<and> (\<forall>xs c e. dict_of_args StoreOrderAddView_post_fields args = Inr xs
          \<and> get_connection env = Inr c
          \<and> post_order_service os c (StoreOrderAddView_post_data env xs) = Inl e
        \<longrightarrow> made_calls (StoreOrderAddView_post env os args)
              = [GetConnection, ServiceCall, Rollback, Close]
            \<and> (\<exists>e'. outcome (StoreOrderAddView_post env os args) = Inl e')
            \<and> (rollback_raises c = None \<and> close_raises c = None
                 \<longrightarrow> outcome (StoreOrderAddView_post env os args) = Inl e))
   \<and> (\<forall>v. outcome (StoreOrderAddView_post env os args) = Inr v
        \<longrightarrow> made_calls (StoreOrderAddView_post env os args)
              = [GetConnection, ServiceCall, Commit, Close]
            \<and> (\<exists>c. get_connection env = Inr c \<and> commit_raises c = None))"
  apply (intro conjI)
  apply (auto simp: outcome_def made_calls_def DestinationView_post_run
      StoreOrderAddView_post_run after_close_def after_rollback_def
      split: sum.splits option.splits if_splits)
  done

theorem write_handlers_witness:
  "made_calls (DestinationView_post (sample_env (Inr (answering no_result)))
       (destination_service_doing (Inl (Exn ServerError ''server_error'')))
       sample_destination_args)
     = [GetConnection, ServiceCall, Rollback, Close]
   \<and> outcome (DestinationView_post (sample_env (Inr (answering no_result)))
       (destination_service_doing (Inl (Exn ServerError ''server_error'')))
       sample_destination_args)
     = Inl (Exn ServerError ''server_error'')
   \<and> Commit \<in> set (made_calls (StoreOrderAddView_post
       (sample_env (Inr (answering no_result))) (store_order_service_doing (Inr (PInt 77)))
       sample_order_args))"
  using write_handlers_commit_or_rollback
    [where env = "sample_env (Inr (answering no_result))"
       and ds = "destination_service_doing (Inl (Exn ServerError ''server_error''))"
       and os = "store_order_service_doing (Inr (PInt 77))"
       and args = sample_destination_args]
    write_handlers_commit_or_rollback
    [where env = "sample_env (Inr (answering no_result))"
       and ds = "destination_service_doing (Inl (Exn ServerError ''server_error''))"
       and os = "store_order_service_doing (Inr (PInt 77))"
       and args = sample_order_args]
    dict_of_sample_destination_args dict_of_sample_order_args
  by (simp add: sample_env_def destination_service_doing_def store_order_service_doing_def
      answering_def)

text \<open>
  Claim C3, as the code has it. A handler that has acquired its connection calls
  \<open>close\<close> exactly once, as its last call, whatever its body did. In the \<open>POST\<close> and
  \<open>DELETE\<close> handlers an exception of the body (of the service call or of \<open>commit\<close>) is
  followed by \<open>connection.rollback()\<close> before \<open>close\<close>; the \<open>GET\<close> handlers never call
  \<open>rollback\<close>. The handler builds no error response itself: the exception of the body
  leaves the handler, replaced by the exception of \<open>rollback\<close> if that raises, and by
  \<open>DatabaseCloseFail\<close> if \<open>close\<close> raises.
\<close>

theorem handlers_cleanup:
  "Rollback \<notin> set (made_calls (DestinationDetailView_get env ds destination_id))
   \<and> Rollback \<notin> set (made_calls (DestinationView_get env ds))
   \<and> Rollback \<notin> set (made_calls (StoreOrderView_get env os args))
   \<and> (get_connection env = Inr c \<longrightarrow>
        made_calls (DestinationDetailView_get env ds destination_id)
          = [GetConnection, ServiceCall, Close]
      \<and> made_calls (DestinationView_get env ds) = [GetConnection, ServiceCall, Close])
   \<and> (get_connection env = Inr c \<and> tuple_item args 0 = Inr x \<longrightarrow>
        made_calls (StoreOrderView_get env os args) = [GetConnection, ServiceCall, Close])
   \<and> (get_connection env = Inr c
        \<and> get_destination_detail_service ds c [(''destination_id'', destination_id)] = Inl e
      \<longrightarrow> outcome (DestinationDetailView_get env ds destination_id)
            = after_close c ''database_close_failed'' (Inl e))
   \<and> (get_connection env = Inr c
        \<and> get_destination_detail_by_user_service ds c [(''account_id'', PInt 120)] = Inl e
      \<longrightarrow> outcome (DestinationView_get env ds)
            = after_close c ''database_close_failed'' (Inl e))
   \<and> (get_connection env = Inr c \<and> tuple_item args 0 = Inr x
        \<and> get_store_order_service os c
             [(''order_id'', x), (''user_id'', g_account_id env),
              (''user_permission'', g_permission_type_id env)] = Inl e
      \<longrightarrow> outcome (StoreOrderView_get env os args)
            = after_close c ''database close fail'' (Inl e))
   \<and> (get_connection env = Inr c
        \<and> dict_of_args DestinationView_post_fields args = Inr data
        \<and> create_destination_service ds c data = Inl e
      \<longrightarrow> made_calls (DestinationView_post env ds args)
            = [GetConnection, ServiceCall, Rollback, Close]
          \<and> outcome (DestinationView_post env ds args)
            = after_close c ''database close fail'' (after_rollback c e))
   \<and> (get_connection env = Inr c
        \<and> dict_of_args DestinationView_post_fields args = Inr data
        \<and> create_destination_service ds c data = Inr v \<and> commit_raises c = Some e
      \<longrightarrow> made_calls (DestinationView_post env ds args)
            = [GetConnection, ServiceCall, Commit, Rollback, Close]
          \<and> outcome (DestinationView_post env ds args)
            = after_close c ''database close fail'' (after_rollback c e))
   \<and> (get_connection env = Inr c
        \<and> dict_of_args DestinationView_post_fields args = Inr data
        \<and> create_destination_service ds c data = Inr v \<and> commit_raises c = None
      \<longrightarrow> made_calls (DestinationView_post env ds args)
            = [GetConnection, ServiceCall, Commit, Close]
          \<and> outcome (DestinationView_post env ds args)
            = after_close c ''database close fail''
                (Inr (PDict [(''message'', PStr ''success'')])))
   \<and> (get_connection env = Inr c \<and> tuple_item args 0 = Inr x
        \<and> delete_destination_service ds c
             [(''destination_id'', x), (''account_id'', PInt 120)] = Inl e
      \<longrightarrow> made_calls (DestinationView_delete env ds args)
            = [GetConnection, ServiceCall, Rollback, Close]
          \<and> outcome (DestinationView_delete env ds args)
            = after_close c ''database close fail'' (after_rollback c e))
   \<and> (get_connection env = Inr c \<and> tuple_item args 0 = Inr x
        \<and> delete_destination_service ds c
             [(''destination_id'', x), (''account_id'', PInt 120)] = Inr v
        \<and> commit_raises c = Some e
      \<longrightarrow> made_calls (DestinationView_delete env ds args)
            = [GetConnection, ServiceCall, Commit, Rollback, Close]
          \<and> outcome (DestinationView_delete env ds args)
            = after_close c ''database close fail'' (after_rollback c e))
   \<and> (get_connection env = Inr c \<and> tuple_item args 0 = Inr x
        \<and> delete_destination_service ds c
             [(''destination_id'', x), (''account_id'', PInt 120)] = Inr v
        \<and> commit_raises c = None
      \<longrightarrow> made_calls (DestinationView_delete env ds args)
            = [GetConnection, ServiceCall, Commit, Close]
          \<and> outcome (DestinationView_delete env ds args)
            = after_close c ''database close fail''
                (Inr (PDict [(''message'', PStr ''success'')])))
   \<and> (get_connection env = Inr c
        \<and> dict_of_args StoreOrderAddView_post_fields args = Inr xs
        \<and> post_order_service os c (StoreOrderAddView_post_data env xs) = Inl e
      \<longrightarrow> made_calls (StoreOrderAddView_post env os args)
            = [GetConnection, ServiceCall, Rollback, Close]
          \<and> outcome (StoreOrderAddView_post env os args)
            = after_close c ''database close fail'' (after_rollback c e))
   \<and> (get_connection env = Inr c
        \<and> dict_of_args StoreOrderAddView_post_fields args = Inr xs
        \<and> post_order_service os c (StoreOrderAddView_post_data env xs) = Inr v
        \<and> commit_raises c = Some e
      \<longrightarrow> made_calls (StoreOrderAddView_post env os args)
            = [GetConnection, ServiceCall, Commit, Rollback, Close]
          \<and> outcome (StoreOrderAddView_post env os args)
            = after_close c ''database close fail'' (after_rollback c e))
   \<and> (get_connection env = Inr c
        \<and> dict_of_args StoreOrderAddView_post_fields args = Inr xs
        \<and> post_order_service os c (StoreOrderAddView_post_data env xs) = Inr v
        \<and> commit_raises c = None
      \<longrightarrow> made_calls (StoreOrderAddView_post env os args)
            = [GetConnection, ServiceCall, Commit, Close]
          \<and> outcome (StoreOrderAddView_post env os args)
            = after_close c ''database close fail''
                (Inr (PTuple [PDict [(''message'', PStr ''success''),
                                     (''result'', PDict [(''order_id'', v)])],
                              PInt 201])))"
  apply (intro conjI impI)
  apply (simp_all add: outcome_def made_calls_def run_lemmas
      split: sum.splits option.splits)
  done

theorem handlers_cleanup_witness:
  "made_calls (DestinationDetailView_get (sample_env (Inr (answering no_result)))
       (destination_service_doing (Inl (Exn ServerError ''server_error''))) (PInt 1))
     = [GetConnection, ServiceCall, Close]
   \<and> made_calls (DestinationView_post (sample_env (Inr (answering no_result)))
       (destination_service_doing (Inl (Exn ServerError ''server_error'')))
       sample_destination_args)
     = [GetConnection, ServiceCall, Rollback, Close]
   \<and> outcome (DestinationView_post (sample_env (Inr (answering no_result)))
       (destination_service_doing (Inl (Exn ServerError ''server_error'')))
       sample_destination_args)
     = Inl (Exn ServerError ''server_error'')"
  using handlers_cleanup
    [where env = "sample_env (Inr (answering no_result))"
       and ds = "destination_service_doing (Inl (Exn ServerError ''server_error''))"
       and args = sample_destination_args and c = "answering no_result"
       and e = "Exn ServerError ''server_error''" and destination_id = "PInt 1"]
    dict_of_sample_destination_args
  by (simp add: sample_env_def destination_service_doing_def answering_def
      after_close_def after_rollback_def)

text \<open>
  Claim C3, as stated, fails: the service call of \<open>DestinationDetailView.get\<close> raises,
  and the handler closes the connection without any \<open>rollback\<close> and raises the same
  exception again.
\<close>

theorem get_handler_no_rollback:
  "made_calls (DestinationDetailView_get (sample_env (Inr (answering no_result)))
       (destination_service_doing (Inl (Exn ServerError ''server_error''))) (PInt 1))
     = [GetConnection, ServiceCall, Close]
   \<and> outcome (DestinationDetailView_get (sample_env (Inr (answering no_result)))
       (destination_service_doing (Inl (Exn ServerError ''server_error''))) (PInt 1))
     = Inl (Exn ServerError ''server_error'')"
  by (simp add: outcome_def made_calls_def DestinationDetailView_get_run after_close_def
      sample_env_def destination_service_doing_def answering_def)

text \<open>
  Claim C9. When \<open>get_connection\<close> raises, the local variable \<open>connection\<close> stays unbound:
  reading it raises a \<open>NameError\<close>, and the \<open>finally\<close> block, which reads it, ends in
  \<open>DatabaseCloseFail\<close>. So each of the six handlers, after the one call to
  \<open>get_connection\<close>, raises \<open>DatabaseCloseFail\<close> in place of the original exception.
\<close>

theorem connection_failure_reported_as_close_failure:
  "(local_connection s = None
      \<longrightarrow> (\<exists>e'. fst (read_connection s) = Inl e' \<and> isinstance e' NameError)
          \<and> fst (close_connection msg s) = Inl (Exn DatabaseCloseFail msg))
   \<and> (get_connection env = Inl e \<longrightarrow>
        outcome (DestinationDetailView_get env ds destination_id)
          = Inl (Exn DatabaseCloseFail ''database_close_failed'')
      \<and> made_calls (DestinationDetailView_get env ds destination_id) = [GetConnection]
      \<and> outcome (DestinationView_get env ds)
          = Inl (Exn DatabaseCloseFail ''database_close_failed'')
      \<and> made_calls (DestinationView_get env ds) = [GetConnection])
   \<and> (get_connection env = Inl e \<and> dict_of_args DestinationView_post_fields args = Inr data
      \<longrightarrow> outcome (DestinationView_post env ds args)
            = Inl (Exn DatabaseCloseFail ''database close fail'')
          \<and> made_calls (DestinationView_post env ds args) = [GetConnection])
   \<and> (get_connection env = Inl e \<and> tuple_item args 0 = Inr x
      \<longrightarrow> outcome (DestinationView_delete env ds args)
            = Inl (Exn DatabaseCloseFail ''database close fail'')
          \<and> made_calls (DestinationView_delete env ds args) = [GetConnection]
          \<and> outcome (StoreOrderView_get env os args)
            = Inl (Exn DatabaseCloseFail ''database close fail'')
          \<and> made_calls (StoreOrderView_get env os args) = [GetConnection])
   \<and> (get_connection env = Inl e \<and> dict_of_args StoreOrderAddView_post_fields args = Inr xs
      \<longrightarrow> outcome (StoreOrderAddView_post env os args)
            = Inl (Exn DatabaseCloseFail ''database close fail'')
          \<and> made_calls (StoreOrderAddView_post env os args) = [GetConnection])"
  apply (intro conjI impI)
  apply (simp_all add: outcome_def made_calls_def run_lemmas)
  apply (simp_all add: read_connection_def close_connection_def try_except_def andthen_def
      throw_def)
  done

theorem connection_failure_witness:
  "outcome (DestinationView_post
       (sample_env (Inl (Exn (OtherError ''OperationalError'') ''cannot connect'')))
       (destination_service_doing (Inr PNone)) sample_destination_args)
     = Inl (Exn DatabaseCloseFail ''database close fail'')
   \<and> outcome (DestinationDetailView_get
       (sample_env (Inl (Exn (OtherError ''OperationalError'') ''cannot connect'')))
       (destination_service_doing (Inr PNone)) (PInt 1))
     = Inl (Exn DatabaseCloseFail ''database_close_failed'')"
  using connection_failure_reported_as_close_failure
    [where env = "sample_env (Inl (Exn (OtherError ''OperationalError'') ''cannot connect''))"
       and ds = "destination_service_doing (Inr PNone)"
       and args = sample_destination_args and destination_id = "PInt 1"
       and e = "Exn (OtherError ''OperationalError'') ''cannot connect''"]
    dict_of_sample_destination_args
  by (simp add: sample_env_def)

text \<open>
  Claim C10, as the code has it. \<open>DestinationDetailView.get\<close> returns the first element of
  the service result under \<open>'result'\<close>. When the service returns an empty sequence, the
  indexing raises \<open>IndexError\<close>, no response is built, and the handler raises that
  \<open>IndexError\<close>, unless closing the connection fails too: then \<open>DatabaseCloseFail\<close>
  replaces it.
\<close>

theorem empty_detail_raises_IndexError:
  "get_connection env = Inr c \<Longrightarrow>
   get_destination_detail_service ds c [(''destination_id'', destination_id)]
     = Inr destination_detail \<Longrightarrow>
   (destination_detail \<in> {PList [], PTuple [], PStr []} \<longrightarrow>
      made_calls (DestinationDetailView_get env ds destination_id)
        = [GetConnection, ServiceCall, Close]
      \<and> (close_raises c = None \<longrightarrow>
            (\<exists>m. outcome (DestinationDetailView_get env ds destination_id)
                    = Inl (Exn IndexError m)))
      \<and> (close_raises c \<noteq> None \<longrightarrow>
            outcome (DestinationDetailView_get env ds destination_id)
              = Inl (Exn DatabaseCloseFail ''database_close_failed'')))
   \<and> (\<forall>x xs. destination_detail = PList (x # xs) \<and> close_raises c = None \<longrightarrow>
        outcome (DestinationDetailView_get env ds destination_id)
          = Inr (PDict [(''message'', PStr ''success''), (''result'', x)]))"
proof -
  assume connected: "get_connection env = Inr c"
    and returned: "get_destination_detail_service ds c [(''destination_id'', destination_id)]
      = Inr destination_detail"
  have run_eq: "run (DestinationDetailView_get env ds destination_id) =
      (after_close c ''database_close_failed''
         (case getitem0 destination_detail of
            Inl e \<Rightarrow> Inl e
          | Inr first \<Rightarrow> Inr (PDict [(''message'', PStr ''success''), (''result'', first)])),
       \<lparr>local_connection = Some c, calls = [GetConnection, ServiceCall, Close]\<rparr>)"
    using connected returned by (simp add: DestinationDetailView_get_run)
  have empty: "\<exists>m. getitem0 destination_detail = Inl (Exn IndexError m)"
    if "destination_detail \<in> {PList [], PTuple [], PStr []}"
    using that by auto
  show ?thesis
  proof (intro conjI impI allI)
    assume "destination_detail \<in> {PList [], PTuple [], PStr []}"
    then obtain m where m: "getitem0 destination_detail = Inl (Exn IndexError m)"
      using empty by blast
    show "made_calls (DestinationDetailView_get env ds destination_id)
        = [GetConnection, ServiceCall, Close]"
      by (simp add: made_calls_def run_eq)
    show "\<exists>m. outcome (DestinationDetailView_get env ds destination_id)
        = Inl (Exn IndexError m)" if "close_raises c = None"
      using that m by (simp add: outcome_def run_eq after_close_def)
    show "outcome (DestinationDetailView_get env ds destination_id)
        = Inl (Exn DatabaseCloseFail ''database_close_failed'')" if "close_raises c \<noteq> None"
      using that by (auto simp: outcome_def run_eq after_close_def)
  next
    fix x xs
    assume "destination_detail = PList (x # xs) \<and> close_raises c = None"
    then show "outcome (DestinationDetailView_get env ds destination_id)
        = Inr (PDict [(''message'', PStr ''success''), (''result'', x)])"
      by (simp add: outcome_def run_eq after_close_def)
  qed
qed

theorem empty_detail_witness:
  "get_connection (sample_env (Inr (answering no_result))) = Inr (answering no_result)
   \<and> get_destination_detail_service (destination_service_doing (Inr (PList [])))
       (answering no_result) [(''destination_id'', PInt 1)] = Inr (PList [])
   \<and> outcome (DestinationDetailView_get (sample_env (Inr (answering no_result)))
       (destination_service_doing (Inr (PList []))) (PInt 1))
     \<in> {Inl (Exn IndexError m) | m. True}"
  using empty_detail_raises_IndexError
    [where env = "sample_env (Inr (answering no_result))" and c = "answering no_result"
       and ds = "destination_service_doing (Inr (PList []))" and destination_id = "PInt 1"
       and destination_detail = "PList []"]
  by (simp add: sample_env_def destination_service_doing_def answering_def)

text \<open>
  Claim C10, as stated, fails: the service returns an empty list and \<open>close\<close> raises; the
  handler raises \<open>DatabaseCloseFail\<close>, not \<open>IndexError\<close>.
\<close>

theorem empty_detail_close_fails:
  "outcome (DestinationDetailView_get (sample_env (Inr (unclosable no_result)))
       (destination_service_doing (Inr (PList []))) (PInt 1))
     = Inl (Exn DatabaseCloseFail ''database_close_failed'')"
  by (simp add: outcome_def DestinationDetailView_get_run after_close_def
      sample_env_def destination_service_doing_def unclosable_def)

section \<open>Validation before the handler\<close>

lemma rejected_by_rule:
  "param_value req p = PStr s \<Longrightarrow> r \<in> set (param_rules p) \<Longrightarrow> \<not> accepts r s \<Longrightarrow>
   param_rejected accepts req p"
  by (cases "param_type p") (auto simp: param_rejected_def list_ex_iff)

lemma validate_params_rejects:
  assumes "p \<in> set params" and "param_rejected accepts req p"
  shows "\<exists>q \<in> set params. param_rejected accepts req q
           \<and> validate_params accepts params handler req frame
               = (Inl (Exn InvalidRequest (param_name q)), frame)"
proof -
  from assms have "List.find (param_rejected accepts req) params \<noteq> None"
    by (auto simp: find_None_iff)
  then obtain q where found: "List.find (param_rejected accepts req) params = Some q"
    by auto
  then have "q \<in> set params" and "param_rejected accepts req q"
    by (auto simp: find_Some_iff)
  with found show ?thesis
    by (auto simp: validate_params_def throw_def)
qed

lemma DestinationView_post_endpoint_refuses:
  assumes "p \<in> set DestinationView_post_params" and "param_rejected accepts req p"
  shows "\<exists>q \<in> set DestinationView_post_params. param_rejected accepts req q
           \<and> run (DestinationView_post_endpoint accepts env ds req)
               = (Inl (Exn InvalidRequest (param_name q)),
                  \<lparr>local_connection = None, calls = []\<rparr>)"
  using validate_params_rejects
    [OF assms, of "DestinationView_post env ds" "\<lparr>local_connection = None, calls = []\<rparr>"]
  by (simp add: run_def DestinationView_post_endpoint_def)

lemma StoreOrderAddView_post_endpoint_refuses:
  assumes "p \<in> set StoreOrderAddView_post_params" and "param_rejected accepts req p"
  shows "\<exists>q \<in> set StoreOrderAddView_post_params. param_rejected accepts req q
           \<and> run (StoreOrderAddView_post_endpoint accepts signin env os req)
               = (case fst signin of
                    Inl e \<Rightarrow> Inl e
                  | Inr u \<Rightarrow> Inl (Exn InvalidRequest (param_name q)),
                  \<lparr>local_connection = None, calls = snd signin\<rparr>)"
proof -
  obtain result made where signin: "signin = (result, made)"
    by (cases signin)
  from validate_params_rejects
    [OF assms, of "StoreOrderAddView_post env os" "\<lparr>local_connection = None, calls = made\<rparr>"]
  obtain q where "q \<in> set StoreOrderAddView_post_params"
    and "param_rejected accepts req q"
    and "validate_params accepts StoreOrderAddView_post_params (StoreOrderAddView_post env os)
           req \<lparr>local_connection = None, calls = made\<rparr>
         = (Inl (Exn InvalidRequest (param_name q)),
            \<lparr>local_connection = None, calls = made\<rparr>)"
    by blast
  with signin show ?thesis
    by (cases result)
      (auto simp: run_def StoreOrderAddView_post_endpoint_def signin_decorator_def)
qed

text \<open>
  Claim C7, as the code has it. A request in which a declared parameter is a string that
  one of the parameter's rules does not accept is refused by \<open>validate_params\<close> with its
  validation error before the handler body runs: the handler makes no call, neither to
  \<open>get_connection\<close> nor to the service. For \<open>DestinationView.post\<close> that is the whole
  request. \<open>StoreOrderAddView.post\<close> is validated only after \<open>signin_decorator\<close> has let
  the request through: when sign-in raises, its exception is the outcome and no validation
  error is raised; in both cases the only calls of the request are those sign-in made.
  The validation error names the malformed parameter when no other parameter is refused.
\<close>

theorem malformed_param_rejected_before_handler:
  assumes "param_value req p = PStr s" and "r \<in> set (param_rules p)" and "\<not> accepts r s"
  shows "(p \<in> set DestinationView_post_params \<longrightarrow>
            made_calls (DestinationView_post_endpoint accepts env ds req) = []
            \<and> (\<exists>q. outcome (DestinationView_post_endpoint accepts env ds req)
                     = Inl (Exn InvalidRequest q))
            \<and> ((\<forall>q \<in> set DestinationView_post_params.
                   param_rejected accepts req q \<longrightarrow> q = p) \<longrightarrow>
                 outcome (DestinationView_post_endpoint accepts env ds req)
                   = Inl (Exn InvalidRequest (param_name p))))
       \<and> (p \<in> set StoreOrderAddView_post_params \<longrightarrow>
            made_calls (StoreOrderAddView_post_endpoint accepts signin env os req)
              = snd signin
            \<and> (fst signin = Inr () \<longrightarrow>
                 (\<exists>q. outcome (StoreOrderAddView_post_endpoint accepts signin env os req)
                        = Inl (Exn InvalidRequest q))
                 \<and> ((\<forall>q \<in> set StoreOrderAddView_post_params.
                        param_rejected accepts req q \<longrightarrow> q = p) \<longrightarrow>
                      outcome (StoreOrderAddView_post_endpoint accepts signin env os req)
                        = Inl (Exn InvalidRequest (param_name p))))
            \<and> (\<forall>e. fst signin = Inl e \<longrightarrow>
                 outcome (StoreOrderAddView_post_endpoint accepts signin env os req) = Inl e))"
proof -
  have rejected: "param_rejected accepts req p"
    using assms by (rule rejected_by_rule)
  have destination: ?thesis if none: "p \<notin> set StoreOrderAddView_post_params"
    and declared: "p \<in> set DestinationView_post_params"
    using DestinationView_post_endpoint_refuses [OF declared rejected, of env ds] none
    by (auto simp: outcome_def made_calls_def)
  have order: ?thesis if none: "p \<notin> set DestinationView_post_params"
    and declared: "p \<in> set StoreOrderAddView_post_params"
    using StoreOrderAddView_post_endpoint_refuses [OF declared rejected, of signin env os] none
    by (auto simp: outcome_def made_calls_def)
  have both: ?thesis if first: "p \<in> set DestinationView_post_params"
    and second: "p \<in> set StoreOrderAddView_post_params"
    using DestinationView_post_endpoint_refuses [OF first rejected, of env ds]
      StoreOrderAddView_post_endpoint_refuses [OF second rejected, of signin env os]
    by (auto simp: outcome_def made_calls_def)
  show ?thesis
    using destination order both by blast
qed

lemma only_phone_refused:
  "\<forall>q \<in> set DestinationView_post_params.
     param_rejected sample_rules (sample_destination_request ''abc'') q \<longrightarrow>
     q = Param ''phone'' JSON Py_str [PhoneRule] True"
  by (simp add: DestinationView_post_params_def param_rejected_def param_value_def Param_def
      sample_destination_request_def)

lemma only_sale_refused:
  "\<forall>q \<in> set StoreOrderAddView_post_params.
     param_rejected sample_rules (sample_order_request ''abc'') q \<longrightarrow>
     q = Param ''sale'' JSON Py_str [DecimalRule] True"
  by (simp add: StoreOrderAddView_post_params_def param_rejected_def param_value_def Param_def
      sample_order_request_def)

theorem malformed_param_witness:
  "param_value (sample_destination_request ''abc'') (Param ''phone'' JSON Py_str [PhoneRule] True)
     = PStr ''abc''
   \<and> PhoneRule \<in> set (param_rules (Param ''phone'' JSON Py_str [PhoneRule] True))
   \<and> \<not> sample_rules PhoneRule ''abc''
   \<and> Param ''phone'' JSON Py_str [PhoneRule] True \<in> set DestinationView_post_params
   \<and> made_calls (DestinationView_post_endpoint sample_rules
        (sample_env (Inr (answering no_result))) (destination_service_doing (Inr PNone))
        (sample_destination_request ''abc'')) = []
   \<and> outcome (DestinationView_post_endpoint sample_rules
        (sample_env (Inr (answering no_result))) (destination_service_doing (Inr PNone))
        (sample_destination_request ''abc'')) = Inl (Exn InvalidRequest ''phone'')
   \<and> param_value (sample_order_request ''abc'') (Param ''sale'' JSON Py_str [DecimalRule] True)
     = PStr ''abc''
   \<and> \<not> sample_rules DecimalRule ''abc''
   \<and> Param ''sale'' JSON Py_str [DecimalRule] True \<in> set StoreOrderAddView_post_params
   \<and> fst signed_in = Inr ()
   \<and> made_calls (StoreOrderAddView_post_endpoint sample_rules signed_in
        (sample_env (Inr (answering no_result))) (store_order_service_doing (Inr (PInt 77)))
        (sample_order_request ''abc'')) = []
   \<and> outcome (StoreOrderAddView_post_endpoint sample_rules signed_in
        (sample_env (Inr (answering no_result))) (store_order_service_doing (Inr (PInt 77)))
        (sample_order_request ''abc'')) = Inl (Exn InvalidRequest ''sale'')"
  using malformed_param_rejected_before_handler
    [where req = "sample_destination_request ''abc''"
       and p = "Param ''phone'' JSON Py_str [PhoneRule] True" and s = "''abc''"
       and r = PhoneRule and accepts = sample_rules
       and env = "sample_env (Inr (answering no_result))"
       and ds = "destination_service_doing (Inr PNone)"]
    malformed_param_rejected_before_handler
    [where req = "sample_order_request ''abc''"
       and p = "Param ''sale'' JSON Py_str [DecimalRule] True" and s = "''abc''"
       and r = DecimalRule and accepts = sample_rules and signin = signed_in
       and env = "sample_env (Inr (answering no_result))"
       and os = "store_order_service_doing (Inr (PInt 77))"]
    only_phone_refused only_sale_refused
  by (simp add: param_value_def Param_def sample_destination_request_def
      sample_order_request_def signed_in_def DestinationView_post_params_def
      StoreOrderAddView_post_params_def)

text \<open>
  Claim C7, as stated, fails: the order request has a malformed \<open>sale\<close>, sign-in refuses
  its token, and the request ends in the exception of sign-in, not in a validation error.
\<close>

theorem signin_error_precedes_validation:
  "param_value (sample_order_request ''abc'') (Param ''sale'' JSON Py_str [DecimalRule] True)
     = PStr ''abc''
   \<and> \<not> sample_rules DecimalRule ''abc''
   \<and> outcome (StoreOrderAddView_post_endpoint sample_rules sign_in_refused
        (sample_env (Inr (answering no_result))) (store_order_service_doing (Inr (PInt 77)))
        (sample_order_request ''abc''))
     = Inl (Exn (OtherError ''InvalidAccessError'') ''invalid_token'')"
  by (simp add: outcome_def run_def StoreOrderAddView_post_endpoint_def signin_decorator_def
      sign_in_refused_def param_value_def Param_def sample_order_request_def)

end
